theory Spec2Isabelle
  imports Main "HOL-Library.Word"
begin

unbundle bit_operations_syntax

section \<open>JavaScript values\<close>

text \<open>
  The type descriptor of \<^verbatim>\<open>Type\<close> (type.ts): a field type name, an optional inner
  type (one type for arrays, a dictionary of types for json objects) and the array flag.
\<close>

datatype ty = Ty (ty_type: string) (ty_inner: inner) (ty_array: bool)
and inner = NoInner | InnerType ty | InnerDict "(string \<times> ty) list"

text \<open>
  The syntax of the functions that the Mongo builder hands to the server as text: a
  function with a rest parameter that returns an expression; an expression is a variable,
  a number, \<^verbatim>\<open>a & b\<close>, \<^verbatim>\<open>a ?? b\<close>, a call of \<^verbatim>\<open>String\<close> or \<^verbatim>\<open>BigInt\<close>, or
  \<^verbatim>\<open>a.reduce((p, c) => e)\<close>.
\<close>

datatype jsexp =
    Var string
  | NumLit int
  | BitAndE jsexp jsexp
  | Coalesce jsexp jsexp
  | CallString jsexp
  | CallBigInt jsexp
  | ReduceE jsexp string string jsexp

datatype jsfun = RestFun string jsexp

text \<open>
  Values as the code sees them. Numbers are the integers among the JavaScript numbers
  (fractions, NaN and the infinities are outside the model); a \<open>DateV\<close> holds the time value
  in milliseconds since the epoch; an object is the list of its own enumerable properties
  in the order of their enumeration; \<open>Expr\<close> is an object marked as an evaluation expression
  (\<^verbatim>\<open>isEvalExpr\<close>), with the type it carries; \<open>Code\<close> is the string that
  \<^verbatim>\<open>toString()\<close> makes of a function, held as the syntax of the function and not as a list
  of characters. Values are trees, and a value carries no identity: whether two objects
  are one and the same object is asked of the runtime, where the code depends on it.
\<close>

datatype jsval =
    Undefined
  | Null
  | Bool bool
  | Num int
  | Str string
  | DateV int
  | RegExpV string string
  | ObjectIdV string
  | Arr "jsval list"
  | Obj "(string \<times> jsval) list"
  | Expr "ty option" "(string \<times> jsval) list"
  | Code jsfun

type_synonym props = "(string \<times> jsval) list"

text \<open>
  The errors the code raises. All of them are \<^verbatim>\<open>TypeError\<close>s in the source but
  \<open>UnresolvedRef\<close>; the names are the error kinds of the design. \<open>RuntimeTypeError\<close> is the
  engine's own \<^verbatim>\<open>TypeError\<close> (a property read on \<^verbatim>\<open>null\<close>, a call of something that is no
  function, an assignment to a property of a primitive in strict mode). \<open>Unmodelled\<close> is no
  error of the code: it marks a run that leaves the model (a property added to an array,
  a date or a regular expression; a member that a value inherits from its prototype; an
  assignment to \<^verbatim>\<open>__proto__\<close>).
\<close>

datatype error =
    InvalidField
  | UnknownField string
  | PrimaryAutoIncMismatch
  | IndexMissing string
  | RuntimeTypeError
  | UnresolvedRef
  | Unmodelled

text \<open>
  What the evaluator takes from outside the code at hand: the regular expression engine
  (\<^verbatim>\<open>makeRegExp(query).test(data)\<close>, \<^verbatim>\<open>query.test(data)\<close> and
  \<^verbatim>\<open>new RegExp(data, 'i').test(query)\<close>) and \<^verbatim>\<open>executeEval\<close> of eval.ts; and what the
  values of the model do not tell: whether an object of the query and an object of the
  data, equal as values, are one and the same object (\<open>same_object\<close>).
\<close>

record runtime =
  regex_test :: "jsval \<Rightarrow> jsval \<Rightarrow> error + bool"
  regex_for :: "jsval \<Rightarrow> jsval \<Rightarrow> error + bool"
  exec_eval :: "jsval \<Rightarrow> jsval \<Rightarrow> error + bool"
  same_object :: "jsval \<Rightarrow> jsval \<Rightarrow> bool"

text \<open>
  The builder of the Mongo driver, as far as the functions below read it: the virtual key
  of the table (\<^verbatim>\<open>this.virtualKey\<close>), the prefix of a field path, the version of the
  server (\<^verbatim>\<open>this.driver.version\<close>) and the field types of the model of the selection
  (\<^verbatim>\<open>sel.model.fields[key]?.type\<close>); and what they call outside the code at hand:
  \<^verbatim>\<open>isFlat\<close>, \<^verbatim>\<open>flatten\<close> and \<^verbatim>\<open>makeRegExp\<close> of utils.ts and the converters of the driver
  behind \<^verbatim>\<open>dump\<close>. \<open>b_eval\<close> stands for \<^verbatim>\<open>this.eval\<close> where a function calls it on a part of
  its argument: the recursion through the operator table is left open.
\<close>

record builder =
  virtualKey :: "string option"
  recursivePrefix :: string
  version :: int
  fieldType :: "string \<Rightarrow> ty option"
  isFlat :: "jsval \<Rightarrow> bool"
  flatten :: "jsval \<Rightarrow> string \<Rightarrow> (string \<times> jsval) list"
  makeRegExp :: "jsval \<Rightarrow> jsval"
  dump :: "jsval \<Rightarrow> ty option \<Rightarrow> jsval"
  b_eval :: "jsval \<Rightarrow> jsval"

definition isNullable :: "jsval \<Rightarrow> bool" where
  "isNullable v = (v = Undefined \<or> v = Null)"

text \<open>Truthiness (\<^verbatim>\<open>!value\<close> is its negation) and \<^verbatim>\<open>typeof value === 'object'\<close>.\<close>

fun truthy :: "jsval \<Rightarrow> bool" where
  "truthy Undefined = False"
| "truthy Null = False"
| "truthy (Bool b) = b"
| "truthy (Num n) = (n \<noteq> 0)"
| "truthy (Str s) = (s \<noteq> [])"
| "truthy _ = True"



subsection \<open>Strings\<close>

text \<open>
  Strings are lists of 8-bit characters: a code unit above 255 (the line separators U+2028
  and U+2029 among them) is outside the model.
\<close>

text \<open>\<^verbatim>\<open>s.split(sep)\<close>: the pieces between the separators, one piece for a string without.\<close>

fun split_on :: "char \<Rightarrow> string \<Rightarrow> string list" where
  "split_on sep [] = [[]]"
| "split_on sep (c # cs) =
     (if c = sep then [] # split_on sep cs
      else (case split_on sep cs of
              [] \<Rightarrow> [[c]]
            | p # ps \<Rightarrow> (c # p) # ps))"


definition is_digit :: "char \<Rightarrow> bool" where
  "is_digit c = (48 \<le> (of_char c :: nat) \<and> (of_char c :: nat) \<le> 57)"

text \<open>A word character (\<^verbatim>\<open>\w\<close>): a letter, a digit or the underscore.\<close>

definition is_word_char :: "char \<Rightarrow> bool" where
  "is_word_char c =
     (let n = (of_char c :: nat)
      in (48 \<le> n \<and> n \<le> 57) \<or> (65 \<le> n \<and> n \<le> 90) \<or> (97 \<le> n \<and> n \<le> 122) \<or> n = 95)"

text \<open>The value of a run of decimal digits.\<close>

definition dec_value :: "string \<Rightarrow> nat" where
  "dec_value s = foldl (\<lambda>n c. 10 * n + ((of_char c :: nat) - 48)) 0 s"

text \<open>The decimal numeral of a number, as \<^verbatim>\<open>String(n)\<close> writes an array index.\<close>

function string_of_nat :: "nat \<Rightarrow> string" where
  "string_of_nat n =
     (if n < 10 then [char_of (48 + n)]
      else string_of_nat (n div 10) @ [char_of (48 + n mod 10)])"
  by pat_completeness auto
termination
  by (relation "measure id") auto

declare string_of_nat.simps [simp del]

text \<open>
  A property name that is an array index: a decimal numeral without leading zeros, below
  \<open>2\<^sup>3\<^sup>2 - 1\<close>.
\<close>

definition index_of_string :: "string \<Rightarrow> nat option" where
  "index_of_string s =
     (if s \<noteq> [] \<and> (\<forall>c \<in> set s. is_digit c) \<and> (s = ''0'' \<or> hd s \<noteq> CHR ''0'')
         \<and> dec_value s < 2 ^ 32 - 1
      then Some (dec_value s) else None)"

subsection \<open>Objects\<close>

text \<open>\<^verbatim>\<open>map.set(k, v)\<close> on the entries of a \<^verbatim>\<open>Map\<close>: an existing key keeps its place, a new one goes last.\<close>

fun map_set :: "('k \<times> 'v) list \<Rightarrow> 'k \<Rightarrow> 'v \<Rightarrow> ('k \<times> 'v) list" where
  "map_set [] k v = [(k, v)]"
| "map_set ((k', v') # kvs) k v =
     (if k' = k then (k, v) # kvs else (k', v') # map_set kvs k v)"

text \<open>
  \<^verbatim>\<open>o[k] = v\<close> on the property list of an object. The own properties of an object are
  enumerated with the array indices first, in ascending order, and the other names after
  them in the order of their creation: an existing name keeps its place, a new index goes
  before the first name that is no smaller index, any other new name goes last.
\<close>

fun insert_index :: "(string \<times> 'v) list \<Rightarrow> nat \<Rightarrow> string \<Rightarrow> 'v \<Rightarrow> (string \<times> 'v) list" where
  "insert_index [] n k v = [(k, v)]"
| "insert_index ((k', v') # kvs) n k v =
     (if (case index_of_string k' of Some m \<Rightarrow> m < n | None \<Rightarrow> False)
      then (k', v') # insert_index kvs n k v
      else (k, v) # (k', v') # kvs)"

definition obj_set :: "(string \<times> 'v) list \<Rightarrow> string \<Rightarrow> 'v \<Rightarrow> (string \<times> 'v) list" where
  "obj_set kvs k v =
     (if k \<in> fst ` set kvs then map_set kvs k v
      else (case index_of_string k of
              None \<Rightarrow> kvs @ [(k, v)]
            | Some n \<Rightarrow> insert_index kvs n k v))"

text \<open>\<^verbatim>\<open>o[k]\<close> on an own property list: \<^verbatim>\<open>undefined\<close> when the key is absent.\<close>

definition obj_get :: "props \<Rightarrow> string \<Rightarrow> jsval" where
  "obj_get kvs k = (case map_of kvs k of None \<Rightarrow> Undefined | Some v \<Rightarrow> v)"

text \<open>\<^verbatim>\<open>{ ...a, ...b }\<close>.\<close>

definition spread :: "(string \<times> 'v) list \<Rightarrow> (string \<times> 'v) list \<Rightarrow> (string \<times> 'v) list" where
  "spread a b = foldl (\<lambda>acc (k, v). obj_set acc k v) a b"

subsection \<open>Properties\<close>

text \<open>
  The own properties of a value by name, with \<^verbatim>\<open>undefined\<close> for a name that is none: the
  properties of an object, the elements and the length of an array or a string, the
  source and the flags of a regular expression. This is \<^verbatim>\<open>v[k]\<close> where the name is known
  not to be inherited; \<open>member\<close> below is \<^verbatim>\<open>v[k]\<close> for any name.
\<close>

fun get_prop :: "jsval \<Rightarrow> string \<Rightarrow> jsval" where
  "get_prop (Obj kvs) k = obj_get kvs k"
| "get_prop (Expr t kvs) k = obj_get kvs k"
| "get_prop (Arr xs) k =
     (if k = ''length'' then Num (int (length xs))
      else (case index_of_string k of
              Some i \<Rightarrow> (if i < length xs then xs ! i else Undefined)
            | None \<Rightarrow> Undefined))"
| "get_prop (Str s) k =
     (if k = ''length'' then Num (int (length s))
      else (case index_of_string k of
              Some i \<Rightarrow> (if i < length s then Str [s ! i] else Undefined)
            | None \<Rightarrow> Undefined))"
| "get_prop (RegExpV src fl) k =
     (if k = ''source'' then Str src else if k = ''flags'' then Str fl else Undefined)"
| "get_prop v k = Undefined"

text \<open>
  The names that every object inherits from \<^verbatim>\<open>Object.prototype\<close> (ECMAScript, with its
  annex B), and the names that a number inherits besides.
\<close>

definition object_prototype_names :: "string list" where
  "object_prototype_names =
     [''constructor'', ''hasOwnProperty'', ''isPrototypeOf'', ''propertyIsEnumerable'',
      ''toLocaleString'', ''toString'', ''valueOf'', ''__proto__'', ''__defineGetter__'',
      ''__defineSetter__'', ''__lookupGetter__'', ''__lookupSetter__'']"

definition number_prototype_names :: "string list" where
  "number_prototype_names = [''toExponential'', ''toFixed'', ''toPrecision''] @ object_prototype_names"

text \<open>
  The shape of the names of the built-in prototypes: letters, digits, the underscore and
  the dollar sign, and no digit at the start.
\<close>

definition member_name :: "string \<Rightarrow> bool" where
  "member_name k =
     (k \<noteq> [] \<and> (\<forall>c \<in> set k. is_word_char c \<or> c = CHR ''$'') \<and> \<not> is_digit (hd k))"

text \<open>The names of the own properties that \<open>get_prop\<close> reads.\<close>

fun has_own :: "jsval \<Rightarrow> string \<Rightarrow> bool" where
  "has_own (Obj kvs) k = (k \<in> fst ` set kvs)"
| "has_own (Expr t kvs) k = (k \<in> fst ` set kvs)"
| "has_own (Arr xs) k =
     (k = ''length'' \<or> (case index_of_string k of Some i \<Rightarrow> i < length xs | None \<Rightarrow> False))"
| "has_own (Str s) k =
     (k = ''length'' \<or> (case index_of_string k of Some i \<Rightarrow> i < length s | None \<Rightarrow> False))"
| "has_own v k = False"

text \<open>
  \<^verbatim>\<open>v[k]\<close> for any name. The read raises on \<^verbatim>\<open>null\<close> and \<^verbatim>\<open>undefined\<close>. An own property
  is read. A name that is no own property is \<^verbatim>\<open>undefined\<close> unless the value inherits it:
  a plain object, a boolean and a number inherit the names above; of an array, a string,
  a date, a regular expression, an object id and an evaluation expression the prototype is
  not listed here, and every name of the shape above counts as inherited. What an
  inherited member is (a function of the engine) is outside the model.
\<close>

definition member :: "jsval \<Rightarrow> string \<Rightarrow> error + jsval" where
  "member v k =
     (if isNullable v then Inl RuntimeTypeError
      else if has_own v k then Inr (get_prop v k)
      else (case v of
              Obj kvs \<Rightarrow> if k \<in> set object_prototype_names then Inl Unmodelled else Inr Undefined
            | Bool b \<Rightarrow> if k \<in> set object_prototype_names then Inl Unmodelled else Inr Undefined
            | Num n \<Rightarrow> if k \<in> set number_prototype_names then Inl Unmodelled else Inr Undefined
            | Code f \<Rightarrow> Inl Unmodelled
            | _ \<Rightarrow> if member_name k then Inl Unmodelled else Inr Undefined))"

text \<open>
  \<^verbatim>\<open>Object.entries(v)\<close> for a value whose \<^verbatim>\<open>typeof\<close> is \<^verbatim>\<open>'object'\<close>: the own enumerable
  properties, the elements of an array by index, nothing for a date, a regular expression
  or an object id.
\<close>

fun entries :: "jsval \<Rightarrow> props" where
  "entries (Obj kvs) = kvs"
| "entries (Expr t kvs) = kvs"
| "entries (Arr xs) = zip (map string_of_nat [0 ..< length xs]) xs"
| "entries v = []"

subsection \<open>Dates\<close>

text \<open>
  A date is its time value \<open>t\<close>, in milliseconds since the epoch. The time zone of the host
  gives the offset of local time from universal time: \<open>offset_at z t\<close> at the time value
  \<open>t\<close>, and \<open>offset_of z l\<close> for the local time \<open>l\<close> (\<open>LocalTZA(t, true)\<close> and
  \<open>LocalTZA(l, false)\<close> of ECMAScript). Where the offset of the zone changes, as with
  daylight saving, the two differ from date to date. The field getters and \<^verbatim>\<open>setHours\<close>
  follow the ECMAScript definitions (\<open>LocalTime\<close>, \<open>UTC\<close>, \<open>Day\<close>, \<open>HourFromTime\<close>,
  \<open>MakeTime\<close>, \<open>MakeDate\<close>); the time values stay in the range of dates, where \<open>TimeClip\<close>
  changes nothing, and a date is never the invalid date.
\<close>

record zone =
  offset_at :: "int \<Rightarrow> int"
  offset_of :: "int \<Rightarrow> int"

definition msPerDay :: int where
  "msPerDay = 86400000"

definition LocalTime :: "zone \<Rightarrow> int \<Rightarrow> int" where
  "LocalTime z t = t + offset_at z t"

definition UTC :: "zone \<Rightarrow> int \<Rightarrow> int" where
  "UTC z l = l - offset_of z l"

definition Day :: "int \<Rightarrow> int" where
  "Day t = t div msPerDay"

definition getHours :: "zone \<Rightarrow> int \<Rightarrow> int" where
  "getHours z t = (LocalTime z t div 3600000) mod 24"

definition getMinutes :: "zone \<Rightarrow> int \<Rightarrow> int" where
  "getMinutes z t = (LocalTime z t div 60000) mod 60"

definition getSeconds :: "zone \<Rightarrow> int \<Rightarrow> int" where
  "getSeconds z t = (LocalTime z t div 1000) mod 60"

definition getMilliseconds :: "zone \<Rightarrow> int \<Rightarrow> int" where
  "getMilliseconds z t = LocalTime z t mod 1000"

definition MakeTime :: "int \<Rightarrow> int \<Rightarrow> int \<Rightarrow> int \<Rightarrow> int" where
  "MakeTime h m s ms = h * 3600000 + m * 60000 + s * 1000 + ms"

definition setHours :: "zone \<Rightarrow> int \<Rightarrow> int \<Rightarrow> int \<Rightarrow> int \<Rightarrow> int \<Rightarrow> int" where
  "setHours z t h m s ms = UTC z (Day (LocalTime z t) * msPerDay + MakeTime h m s ms)"

text \<open>
  The local time that \<^verbatim>\<open>setHours\<close> makes of \<^verbatim>\<open>new Date(0)\<close> and the fields of a date \<open>t\<close>:
  the local day of the epoch with the local time of day of \<open>t\<close>. A local time exists in
  the zone when the date that \<open>UTC\<close> makes of it has it as its local time; a local time that
  a change of the offset skips does not.
\<close>

definition epoch_time_of_day :: "zone \<Rightarrow> int \<Rightarrow> int" where
  "epoch_time_of_day z t = Day (LocalTime z 0) * msPerDay + LocalTime z t mod msPerDay"


text \<open>A zone whose offset never changes, and universal time.\<close>

definition fixed_zone :: "int \<Rightarrow> zone" where
  "fixed_zone off = \<lparr> offset_at = (\<lambda>t. off), offset_of = (\<lambda>l. off) \<rparr>"

definition utc :: zone where
  "utc = fixed_zone 0"


section \<open>Fields and models\<close>

text \<open>
  The number that unary plus makes of a shorthand argument: a run of decimal digits is its
  value where that value is a double for certain, the empty string is 0, \<^verbatim>\<open>+undefined\<close> is
  NaN; what \<^verbatim>\<open>Number\<close> makes of any other string is left uninterpreted.
\<close>

datatype jsnum = IntN int | NaN | NumberOf string

record field =
  ftype :: string
  flength :: "jsnum option"
  nullable :: "bool option"
  initial :: "jsval option"
  precision :: "jsnum option"
  scale :: "jsnum option"
  expr :: "string option"
  legacy :: "string list option"
  deprecated :: "bool option"

datatype keyspec = Single string | Multi "string list"

record model =
  name :: string
  mfields :: "(string \<times> field) list"
  primary :: keyspec
  autoInc :: bool
  unique :: "keyspec list"
  foreign :: "(string \<times> string \<times> string) list"
  migrations :: "(string \<times> string list) list"

text \<open>\<^verbatim>\<open>this.fields[key]?.type\<close>.\<close>

definition field_type :: "model \<Rightarrow> string \<Rightarrow> string option" where
  "field_type M key = map_option ftype (map_of (mfields M) key)"

subsection \<open>\<^verbatim>\<open>Model.resolveValue\<close>\<close>

definition resolveValue :: "zone \<Rightarrow> model \<Rightarrow> string \<Rightarrow> jsval \<Rightarrow> error + jsval" where
  "resolveValue z M key v =
     (if isNullable v then Inr v
      else if field_type M key = Some ''time'' then
        (case v of
           DateV t \<Rightarrow>
             Inr (DateV (setHours z 0 (getHours z t) (getMinutes z t)
                                      (getSeconds z t) (getMilliseconds z t)))
         | _ \<Rightarrow> Inl RuntimeTypeError)
      else Inr v)"


subsection \<open>\<^verbatim>\<open>Field.parse\<close>\<close>

text \<open>
  The character classes of the regular expression \<^verbatim>\<open>/^(\w+)(?:\((.+)\))?$/\<close>: \<^verbatim>\<open>\w\<close> is a
  word character; the dot matches everything but a line terminator.
\<close>

definition is_line_terminator :: "char \<Rightarrow> bool" where
  "is_line_terminator c = ((of_char c :: nat) = 10 \<or> (of_char c :: nat) = 13)"

text \<open>
  \<^verbatim>\<open>regexp.exec(source)\<close>: the two captures, or no match. The word is the longest run of
  word characters at the start (a shorter one would be followed by a word character, which
  is neither a parenthesis nor the end); what follows is nothing, or an opening
  parenthesis, at least one character without a line terminator, and a closing parenthesis
  that ends the string.
\<close>

definition regexp_exec :: "string \<Rightarrow> (string \<times> string option) option" where
  "regexp_exec source =
     (let word = takeWhile is_word_char source;
          rest = dropWhile is_word_char source
      in if word = [] then None
         else if rest = [] then Some (word, None)
         else if hd rest = CHR ''('' \<and> last rest = CHR '')'' \<and> 3 \<le> length rest
                 \<and> (\<forall>c \<in> set (butlast (tl rest)). \<not> is_line_terminator c)
         then Some (word, Some (butlast (tl rest)))
         else None)"

text \<open>
  Unary plus on an element of \<^verbatim>\<open>args\<close>; a missing element is \<^verbatim>\<open>undefined\<close>. A number is a
  double: a run of digits is its own value as long as that is at most \<open>2\<^sup>5\<^sup>3\<close>, up to
  where every integer is a double.
\<close>

definition unary_plus :: "string option \<Rightarrow> jsnum" where
  "unary_plus a =
     (case a of
        None \<Rightarrow> NaN
      | Some s \<Rightarrow>
          if s = [] then IntN 0
          else if (\<forall>c \<in> set s. is_digit c) \<and> dec_value s \<le> 2 ^ 53 then IntN (int (dec_value s))
          else NumberOf s)"

definition nth_opt :: "'a list \<Rightarrow> nat \<Rightarrow> 'a option" where
  "nth_opt xs i = (if i < length xs then Some (xs ! i) else None)"

text \<open>The three shapes of a field definition: a shorthand, a field object, a callback.\<close>

datatype field_src = Shorthand string | FieldObj field | Callback string

definition field0 :: "string \<Rightarrow> field" where
  "field0 t = \<lparr> ftype = t, flength = None, nullable = None, initial = None, precision = None,
                scale = None, expr = None, legacy = None, deprecated = None \<rparr>"

definition number_types :: "string list" where
  "number_types = [''integer'', ''unsigned'', ''float'', ''double'', ''decimal'']"

definition string_types :: "string list" where
  "string_types = [''char'', ''string'', ''text'']"

definition boolean_types :: "string list" where
  "boolean_types = [''boolean'']"

definition default_initial :: "field \<Rightarrow> field" where
  "default_initial f =
     (if initial f = None \<or> initial f = Some Undefined then
        (let f1 = (if ftype f \<in> set number_types then f\<lparr>initial := Some (Num 0)\<rparr> else f);
             f2 = (if ftype f1 \<in> set string_types then f1\<lparr>initial := Some (Str [])\<rparr> else f1);
             f3 = (if ftype f2 = ''list'' then f2\<lparr>initial := Some (Arr [])\<rparr> else f2);
             f4 = (if ftype f3 = ''json'' then f3\<lparr>initial := Some (Obj [])\<rparr> else f3)
         in f4)
      else f)"

definition set_length :: "string \<Rightarrow> string list \<Rightarrow> field \<Rightarrow> field" where
  "set_length t args f =
     (if t = ''decimal'' then
        f\<lparr>precision := Some (unary_plus (nth_opt args 0)),
          scale := Some (unary_plus (nth_opt args 1))\<rparr>
      else if nth_opt args 0 \<noteq> None \<and> nth_opt args 0 \<noteq> Some [] then
        f\<lparr>flength := Some (unary_plus (nth_opt args 0))\<rparr>
      else f)"

definition Field_parse :: "field_src \<Rightarrow> error + field" where
  "Field_parse source =
     (case source of
        Callback fn \<Rightarrow> Inr ((field0 ''expr'')\<lparr>expr := Some fn\<rparr>)
      | FieldObj f \<Rightarrow> Inr (if initial f = None then f\<lparr>initial := Some Null\<rparr> else f)
      | Shorthand s \<Rightarrow>
          (case regexp_exec s of
             None \<Rightarrow> Inl InvalidField
           | Some (t, capture2) \<Rightarrow>
               (let args = split_on CHR '','' (case capture2 of None \<Rightarrow> [] | Some a \<Rightarrow> a)
                in Inr (set_length t args (default_initial (field0 t))))))"

subsection \<open>\<^verbatim>\<open>Model\<close>\<close>

text \<open>A new model: \<^verbatim>\<open>new Model(name)\<close>.\<close>

definition new_model :: "string \<Rightarrow> model" where
  "new_model n = \<lparr> name = n, mfields = [], primary = Single ''id'', autoInc = False,
                    unique = [], foreign = [], migrations = [] \<rparr>"


fun makeArray :: "keyspec \<Rightarrow> string list" where
  "makeArray (Single k) = [k]"
| "makeArray (Multi ks) = ks"







subsection \<open>\<^verbatim>\<open>Model.format\<close>\<close>


text \<open>The number of nodes of a value: what decreases as \<open>format\<close> descends.\<close>

fun nodes :: "jsval \<Rightarrow> nat" where
  "nodes (Arr xs) = Suc (sum_list (map (\<lambda>x. Suc (nodes x)) xs))"
| "nodes (Obj kvs) = Suc (sum_list (map (\<lambda>(k, v). Suc (nodes v)) kvs))"
| "nodes (Expr t kvs) = Suc (sum_list (map (\<lambda>(k, v). Suc (nodes v)) kvs))"
| "nodes v = 1"

text \<open>
  \<^verbatim>\<open>result[key] = value\<close> on the result of \<^verbatim>\<open>format\<close>, a plain object: the key \<^verbatim>\<open>__proto__\<close>
  defines no property (it sets the prototype of the result) and leaves the model.
\<close>

definition store :: "props \<Rightarrow> string \<Rightarrow> jsval \<Rightarrow> error + props" where
  "store result key v = (if key = ''__proto__'' then Inl Unmodelled else Inr (obj_set result key v))"



subsection \<open>\<^verbatim>\<open>Model.parse\<close>\<close>

text \<open>
  \<^verbatim>\<open>node[k] = v\<close>. The assignment raises on \<^verbatim>\<open>null\<close> and \<^verbatim>\<open>undefined\<close>. The key \<^verbatim>\<open>__proto__\<close>
  is the setter of the prototype and leaves the model. The module is in strict mode: the
  assignment to a property of a primitive raises.
\<close>

fun set_own :: "jsval \<Rightarrow> string \<Rightarrow> jsval \<Rightarrow> error + jsval" where
  "set_own (Obj kvs) k v = Inr (Obj (obj_set kvs k v))"
| "set_own (Expr t kvs) k v = Inr (Expr t (obj_set kvs k v))"
| "set_own (Arr xs) k v =
     (case index_of_string k of
        Some i \<Rightarrow> (if i < length xs then Inr (Arr (xs[i := v])) else Inl Unmodelled)
      | None \<Rightarrow> Inl Unmodelled)"
| "set_own (Bool b) k v = Inl RuntimeTypeError"
| "set_own (Num n) k v = Inl RuntimeTypeError"
| "set_own (Str s) k v = Inl RuntimeTypeError"
| "set_own w k v = Inl Unmodelled"

definition set_prop :: "jsval \<Rightarrow> string \<Rightarrow> jsval \<Rightarrow> error + jsval" where
  "set_prop node k v =
     (if isNullable node then Inl RuntimeTypeError
      else if k = ''__proto__'' then Inl Unmodelled
      else set_own node k v)"

text \<open>
  The walk of \<^verbatim>\<open>parse\<close> along the segments of a key, \<^verbatim>\<open>node = node[segment] ??= {}\<close>, and
  the assignment at the last segment. The source updates the nodes in place; here the
  updated node is returned and stored back in its parent.
\<close>

fun assign_path :: "jsval \<Rightarrow> string list \<Rightarrow> jsval \<Rightarrow> error + jsval" where
  "assign_path node [] v = Inr node"
| "assign_path node [s] v = set_prop node s v"
| "assign_path node (s # s' # ss) v =
     (case member node s of
        Inl e \<Rightarrow> Inl e
      | Inr x \<Rightarrow>
          if isNullable x then
            (case set_prop node s (Obj []) of
               Inl e \<Rightarrow> Inl e
             | Inr node' \<Rightarrow>
                 (case assign_path (Obj []) (s' # ss) v of
                    Inl e \<Rightarrow> Inl e
                  | Inr child \<Rightarrow> set_prop node' s child))
          else
            (case assign_path x (s' # ss) v of
               Inl e \<Rightarrow> Inl e
             | Inr child \<Rightarrow> set_prop node s child))"

text \<open>The walk alone, which \<^verbatim>\<open>parse\<close> makes before it resolves the value: the error it ends in.\<close>

fun walk_error :: "jsval \<Rightarrow> string list \<Rightarrow> error option" where
  "walk_error node [] = None"
| "walk_error node (s # ss) =
     (case member node s of
        Inl e \<Rightarrow> Some e
      | Inr x \<Rightarrow>
          if isNullable x then
            (case set_prop node s (Obj []) of
               Inl e \<Rightarrow> Some e
             | Inr node' \<Rightarrow> walk_error (Obj []) ss)
          else walk_error x ss)"

text \<open>
  The loop of \<^verbatim>\<open>parse\<close> over the keys of the source, a flat object: after the walk along
  the segments before the last, the value is resolved and assigned at the path of the key.
\<close>

fun parse_keys :: "zone \<Rightarrow> model \<Rightarrow> props \<Rightarrow> jsval \<Rightarrow> error + jsval" where
  "parse_keys z M [] result = Inr result"
| "parse_keys z M ((key, v) # rest) result =
     (case walk_error result (butlast (split_on CHR ''.'' key)) of
        Some e \<Rightarrow> Inl e
      | None \<Rightarrow>
          (case resolveValue z M key v of
             Inl e \<Rightarrow> Inl e
           | Inr v' \<Rightarrow>
               (case assign_path result (split_on CHR ''.'' key) v' of
                  Inl e \<Rightarrow> Inl e
                | Inr result' \<Rightarrow> parse_keys z M rest result')))"

definition parse :: "zone \<Rightarrow> model \<Rightarrow> props \<Rightarrow> error + jsval" where
  "parse z M source = parse_keys z M source (Obj [])"

subsection \<open>\<^verbatim>\<open>Model.create\<close>\<close>

text \<open>
  \<^verbatim>\<open>clone\<close> is a function of the package cosmokit and no code of this repository: it is
  the parameter \<open>cl\<close> of what follows. \<open>tree_clone\<close> is what cosmokit documents, a copy of
  arrays and objects element by element; on values without identity the copy is the value.
\<close>

fun tree_clone :: "jsval \<Rightarrow> jsval" where
  "tree_clone (Arr xs) = Arr (map tree_clone xs)"
| "tree_clone (Obj kvs) = Obj (map (\<lambda>(k, v). (k, tree_clone v)) kvs)"
| "tree_clone v = v"

text \<open>The loop of \<^verbatim>\<open>create\<close> over the fields of the model.\<close>

fun seed :: "(jsval \<Rightarrow> jsval) \<Rightarrow> string list \<Rightarrow> (string \<times> field) list \<Rightarrow> props
    \<Rightarrow> error + props" where
  "seed cl keys [] result = Inr result"
| "seed cl keys ((key, f) # rest) result =
     (if deprecated f = Some True then seed cl keys rest result
      else if key \<notin> set keys \<and> initial f \<noteq> None \<and> \<not> isNullable (the (initial f)) then
        (case store result key (cl (the (initial f))) of
           Inl e \<Rightarrow> Inl e
         | Inr result' \<Rightarrow> seed cl keys rest result')
      else seed cl keys rest result)"

definition create :: "(jsval \<Rightarrow> jsval) \<Rightarrow> zone \<Rightarrow> model \<Rightarrow> props \<Rightarrow> error + jsval" where
  "create cl z M data =
     (case seed cl (makeArray (primary M)) (mfields M) [] of
        Inl e \<Rightarrow> Inl e
      | Inr result \<Rightarrow> parse z M (spread result data))"

text \<open>The fields that \<open>create\<close> seeds, with the clones of their initial values.\<close>

definition seeds :: "(jsval \<Rightarrow> jsval) \<Rightarrow> string list \<Rightarrow> (string \<times> field) list \<Rightarrow> (string \<times> jsval) set" where
  "seeds cl keys fs =
     {(k, v). \<exists>f i. (k, f) \<in> set fs \<and> deprecated f \<noteq> Some True \<and> k \<notin> set keys
                \<and> initial f = Some i \<and> \<not> isNullable i \<and> v = cl i}"

subsection \<open>The shorthand grammar\<close>

text \<open>
  The grammar of a field shorthand as the design gives it, \<^verbatim>\<open>TYPE | TYPE(ARG)\<close>: \<open>TYPE\<close> is
  a non-empty run of word characters and \<open>ARG\<close> a non-empty text on one line (in
  \<^verbatim>\<open>TYPE(precision,scale)\<close> the text is two numbers with a comma between).
\<close>

definition shorthand_type :: "string \<Rightarrow> bool" where
  "shorthand_type t = (t \<noteq> [] \<and> (\<forall>c \<in> set t. is_word_char c))"

definition shorthand_arg :: "string \<Rightarrow> bool" where
  "shorthand_arg a = (a \<noteq> [] \<and> (\<forall>c \<in> set a. \<not> is_line_terminator c))"

text \<open>A decimal numeral of which unary plus makes its value: at most \<open>2\<^sup>5\<^sup>3\<close>.\<close>

definition small_numeral :: "string \<Rightarrow> bool" where
  "small_numeral n = (n \<noteq> [] \<and> (\<forall>c \<in> set n. is_digit c) \<and> dec_value n \<le> 2 ^ 53)"

definition shorthand_grammar :: "string \<Rightarrow> bool" where
  "shorthand_grammar s =
     (\<exists>t. shorthand_type t \<and>
          (s = t \<or> (\<exists>a. shorthand_arg a \<and> s = t @ ''('' @ a @ '')'')))"

subsection \<open>Sample models\<close>





text \<open>A model with a key, defaults, a nullable field and a deprecated one.\<close>

definition user_model :: model where
  "user_model =
     (new_model ''user'')\<lparr> mfields :=
        [(''id'', (field0 ''unsigned'')\<lparr>initial := Some (Num 0), deprecated := Some False\<rparr>),
         (''name'', (field0 ''string'')\<lparr>initial := Some (Str []), deprecated := Some False\<rparr>),
         (''tags'', (field0 ''list'')\<lparr>initial := Some (Arr []), deprecated := Some False\<rparr>),
         (''bio'', (field0 ''text'')\<lparr>nullable := Some True, initial := Some Null,
                                      deprecated := Some False\<rparr>),
         (''nick'', (field0 ''string'')\<lparr>initial := Some (Str []), deprecated := Some True\<rparr>)] \<rparr>"


subsection \<open>Format and parse\<close>




subsection \<open>The record that the round trip returns\<close>

text \<open>
  The design states the round trip \<^verbatim>\<open>M.parse(M.format(r, false))\<close> as \<open>r\<close> restricted to the
  declared fields, with the dotted paths regrouped into nested objects. The definitions of
  this subsection follow that statement, not the source; the theorems compare them with
  \<open>roundtrip\<close>.
\<close>



text \<open>
  The value of a time field as the design states it: the time of day of the date, on the
  local day of the epoch. Every other value is left as it is.
\<close>

definition normalise :: "zone \<Rightarrow> model \<Rightarrow> string \<Rightarrow> jsval \<Rightarrow> jsval" where
  "normalise z M key v =
     (if field_type M key = Some ''time'' then
        (case v of
           DateV t \<Rightarrow> DateV (UTC z (epoch_time_of_day z t))
         | _ \<Rightarrow> v)
      else v)"

definition normalised :: "zone \<Rightarrow> model \<Rightarrow> props \<Rightarrow> props" where
  "normalised z M flat = map (\<lambda>(key, v). (key, normalise z M key v)) flat"










text \<open>
  The shape of a value and of a tree: whether a stored value is \<^verbatim>\<open>null\<close> or \<^verbatim>\<open>undefined\<close>,
  which is all that \<open>passes\<close> asks of it.
\<close>

definition shape_of :: "jsval \<Rightarrow> jsval" where
  "shape_of v = (if isNullable v then Undefined else Bool True)"





section \<open>The portable evaluator of queries\<close>

subsection \<open>Comparison of values\<close>

text \<open>
  Modelled from the spec: \<^verbatim>\<open>isComparable\<close> of utils.ts, which is not at hand. The values
  that compare "by value-of coercion" are strings, numbers, booleans and dates.
\<close>

fun isComparable :: "jsval \<Rightarrow> bool" where
  "isComparable (Str s) = True"
| "isComparable (Num n) = True"
| "isComparable (Bool b) = True"
| "isComparable (DateV t) = True"
| "isComparable v = False"

text \<open>\<^verbatim>\<open>v.valueOf()\<close>: it raises on \<^verbatim>\<open>null\<close> and \<^verbatim>\<open>undefined\<close>; a date gives its time value.\<close>

fun valueOf :: "jsval \<Rightarrow> error + jsval" where
  "valueOf Undefined = Inl RuntimeTypeError"
| "valueOf Null = Inl RuntimeTypeError"
| "valueOf (DateV t) = Inr (Num t)"
| "valueOf v = Inr v"

text \<open>
  \<^verbatim>\<open>a === b\<close>, and the \<open>SameValueZero\<close> of \<^verbatim>\<open>includes\<close>, which is the same on the values of
  the model: primitives are equal by value; a date, an array or an object is equal to
  itself only, which the runtime tells (\<open>same_object\<close>).
\<close>

fun is_primitive :: "jsval \<Rightarrow> bool" where
  "is_primitive Undefined = True"
| "is_primitive Null = True"
| "is_primitive (Bool b) = True"
| "is_primitive (Num n) = True"
| "is_primitive (Str s) = True"
| "is_primitive v = False"

definition strict_eq :: "runtime \<Rightarrow> jsval \<Rightarrow> jsval \<Rightarrow> bool" where
  "strict_eq rt a b = (a = b \<and> (is_primitive a \<or> same_object rt a b))"

text \<open>\<^verbatim>\<open>xs.includes(v)\<close> on an array.\<close>

definition array_includes :: "runtime \<Rightarrow> jsval list \<Rightarrow> jsval \<Rightarrow> bool" where
  "array_includes rt xs v = list_ex (\<lambda>x. strict_eq rt x v) xs"

text \<open>
  \<open>ToNumber\<close>, with \<open>None\<close> for NaN. What it makes of a string that is no run of digits,
  and of an object, is outside the model.
\<close>

fun to_number :: "jsval \<Rightarrow> error + int option" where
  "to_number (Num n) = Inr (Some n)"
| "to_number (Bool b) = Inr (Some (if b then 1 else 0))"
| "to_number Null = Inr (Some 0)"
| "to_number Undefined = Inr None"
| "to_number (Str s) =
     (if s = [] then Inr (Some 0)
      else if \<forall>c \<in> set s. is_digit c then Inr (Some (int (dec_value s)))
      else Inl Unmodelled)"
| "to_number v = Inl Unmodelled"

text \<open>The order of strings, code unit by code unit.\<close>

fun str_less :: "string \<Rightarrow> string \<Rightarrow> bool" where
  "str_less [] [] = False"
| "str_less [] (d # t) = True"
| "str_less (c # s) [] = False"
| "str_less (c # s) (d # t) =
     (if (of_char c :: nat) < of_char d then True
      else if (of_char d :: nat) < of_char c then False
      else str_less s t)"

text \<open>\<^verbatim>\<open>a < b\<close> and \<^verbatim>\<open>a <= b\<close> on values that \<^verbatim>\<open>valueOf\<close> returned.\<close>

definition js_lt :: "jsval \<Rightarrow> jsval \<Rightarrow> error + bool" where
  "js_lt a b =
     (case (a, b) of
        (Str s, Str t) \<Rightarrow> Inr (str_less s t)
      | _ \<Rightarrow>
          (case to_number a of
             Inl e \<Rightarrow> Inl e
           | Inr x \<Rightarrow>
               (case to_number b of
                  Inl e \<Rightarrow> Inl e
                | Inr y \<Rightarrow>
                    Inr (case (x, y) of (Some m, Some n) \<Rightarrow> m < n | _ \<Rightarrow> False))))"

definition js_le :: "jsval \<Rightarrow> jsval \<Rightarrow> error + bool" where
  "js_le a b =
     (case (a, b) of
        (Str s, Str t) \<Rightarrow> Inr (\<not> str_less t s)
      | _ \<Rightarrow>
          (case to_number a of
             Inl e \<Rightarrow> Inl e
           | Inr x \<Rightarrow>
               (case to_number b of
                  Inl e \<Rightarrow> Inl e
                | Inr y \<Rightarrow>
                    Inr (case (x, y) of (Some m, Some n) \<Rightarrow> m \<le> n | _ \<Rightarrow> False))))"

text \<open>A comparison operator: \<^verbatim>\<open>data.valueOf() OP query.valueOf()\<close>.\<close>

definition compare_with :: "(jsval \<Rightarrow> jsval \<Rightarrow> error + bool) \<Rightarrow> jsval \<Rightarrow> jsval \<Rightarrow> error + bool" where
  "compare_with op query data =
     (case valueOf data of
        Inl e \<Rightarrow> Inl e
      | Inr d \<Rightarrow> (case valueOf query of Inl e \<Rightarrow> Inl e | Inr q \<Rightarrow> op d q))"

text \<open>
  \<^verbatim>\<open>query & data\<close>: both operands go through \<open>ToNumber\<close> and \<open>ToInt32\<close> (NaN is 0), and the
  result is a signed 32-bit number.
\<close>

definition to_int32 :: "jsval \<Rightarrow> error + 32 word" where
  "to_int32 v =
     (case to_number v of
        Inl e \<Rightarrow> Inl e
      | Inr None \<Rightarrow> Inr 0
      | Inr (Some n) \<Rightarrow> Inr (word_of_int n))"

definition bit_and :: "jsval \<Rightarrow> jsval \<Rightarrow> error + jsval" where
  "bit_and a b =
     (case to_int32 a of
        Inl e \<Rightarrow> Inl e
      | Inr x \<Rightarrow> (case to_int32 b of Inl e \<Rightarrow> Inl e | Inr y \<Rightarrow> Inr (Num (sint (x AND y)))))"

subsection \<open>\<^verbatim>\<open>executeFieldQuery\<close>\<close>

definition invert :: "error + bool \<Rightarrow> error + bool" where
  "invert r = (case r of Inl e \<Rightarrow> Inl e | Inr b \<Rightarrow> Inr (\<not> b))"

text \<open>
  The operators of \<^verbatim>\<open>queryOperators\<close> that do not call back into the evaluator, by key.
  \<open>None\<close>: the key is none of them.
\<close>

definition simple_operator :: "runtime \<Rightarrow> string \<Rightarrow> jsval \<Rightarrow> jsval \<Rightarrow> (error + bool) option" where
  "simple_operator rt key query data =
     (if key = ''$exists'' then Some (Inr (query \<noteq> Bool (isNullable data)))
      else if key = ''$eq'' then Some (compare_with (\<lambda>d q. Inr (strict_eq rt d q)) query data)
      else if key = ''$ne'' then Some (compare_with (\<lambda>d q. Inr (\<not> strict_eq rt d q)) query data)
      else if key = ''$gt'' then Some (compare_with (\<lambda>d q. js_lt q d) query data)
      else if key = ''$gte'' then Some (compare_with (\<lambda>d q. js_le q d) query data)
      else if key = ''$lt'' then Some (compare_with (\<lambda>d q. js_lt d q) query data)
      else if key = ''$lte'' then Some (compare_with (\<lambda>d q. js_le d q) query data)
      else if key = ''$in'' then
        Some (case query of
                Arr xs \<Rightarrow> Inr (array_includes rt xs data)
              | Str s \<Rightarrow> Inl Unmodelled
              | _ \<Rightarrow> Inl RuntimeTypeError)
      else if key = ''$nin'' then
        Some (case query of
                Arr xs \<Rightarrow> Inr (\<not> array_includes rt xs data)
              | Str s \<Rightarrow> Inl Unmodelled
              | _ \<Rightarrow> Inl RuntimeTypeError)
      else if key = ''$regex'' then Some (regex_test rt query data)
      else if key = ''$regexFor'' then Some (regex_for rt query data)
      else if key = ''$bitsAllSet'' then
        Some (case bit_and query data of Inl e \<Rightarrow> Inl e | Inr r \<Rightarrow> Inr (strict_eq rt r query))
      else if key = ''$bitsAllClear'' then
        Some (case bit_and query data of Inl e \<Rightarrow> Inl e | Inr r \<Rightarrow> Inr (strict_eq rt r (Num 0)))
      else if key = ''$bitsAnySet'' then
        Some (case bit_and query data of Inl e \<Rightarrow> Inl e | Inr r \<Rightarrow> Inr (\<not> strict_eq rt r (Num 0)))
      else if key = ''$bitsAnyClear'' then
        Some (case bit_and query data of Inl e \<Rightarrow> Inl e | Inr r \<Rightarrow> Inr (\<not> strict_eq rt r query))
      else if key = ''$size'' then
        Some (case member data ''length'' of
                Inl e \<Rightarrow> Inl e
              | Inr l \<Rightarrow> Inr (strict_eq rt l query))
      else None)"

text \<open>
  \<^verbatim>\<open>executeFieldQuery\<close> with the loops it runs: over the keys of an operator object, over
  the alternatives of \<^verbatim>\<open>$or\<close> and \<^verbatim>\<open>$and\<close> (a \<^verbatim>\<open>reduce\<close> whose \<^verbatim>\<open>||\<close> and \<^verbatim>\<open>&&\<close> skip the
  call once the result is settled) and over the items of the data for \<^verbatim>\<open>$el\<close>. The test
  \<^verbatim>\<open>key in queryOperators\<close> is also true of the names that the table inherits; the call of
  such a member leaves the model.
\<close>

function (sequential) executeFieldQuery :: "runtime \<Rightarrow> jsval \<Rightarrow> jsval \<Rightarrow> error + bool"
  and field_keys :: "runtime \<Rightarrow> props \<Rightarrow> jsval \<Rightarrow> error + bool"
  and field_or :: "runtime \<Rightarrow> jsval list \<Rightarrow> jsval \<Rightarrow> bool \<Rightarrow> error + bool"
  and field_and :: "runtime \<Rightarrow> jsval list \<Rightarrow> jsval \<Rightarrow> bool \<Rightarrow> error + bool"
  and field_some :: "runtime \<Rightarrow> jsval \<Rightarrow> jsval list \<Rightarrow> error + bool"
where
  "executeFieldQuery rt (Arr xs) data = Inr (array_includes rt xs data)"
| "executeFieldQuery rt (RegExpV src flags) data = regex_test rt (RegExpV src flags) data"
| "executeFieldQuery rt (Str s) data =
     compare_with (\<lambda>d q. Inr (strict_eq rt d q)) (Str s) data"
| "executeFieldQuery rt (Num n) data =
     compare_with (\<lambda>d q. Inr (strict_eq rt d q)) (Num n) data"
| "executeFieldQuery rt (Bool b) data =
     compare_with (\<lambda>d q. Inr (strict_eq rt d q)) (Bool b) data"
| "executeFieldQuery rt (DateV t) data =
     compare_with (\<lambda>d q. Inr (strict_eq rt d q)) (DateV t) data"
| "executeFieldQuery rt Undefined data = Inr (isNullable data)"
| "executeFieldQuery rt Null data = Inr (isNullable data)"
| "executeFieldQuery rt (Obj kvs) data = field_keys rt kvs data"
| "executeFieldQuery rt (Expr t kvs) data = field_keys rt kvs data"
| "executeFieldQuery rt (ObjectIdV s) data = Inr True"
| "executeFieldQuery rt (Code f) data = Inl Unmodelled"
| "field_keys rt [] data = Inr True"
| "field_keys rt ((key, query) # rest) data =
     (case (if key = ''$or'' then
              (case query of Arr qs \<Rightarrow> field_or rt qs data False | _ \<Rightarrow> Inl RuntimeTypeError)
            else if key = ''$and'' then
              (case query of Arr qs \<Rightarrow> field_and rt qs data True | _ \<Rightarrow> Inl RuntimeTypeError)
            else if key = ''$not'' then invert (executeFieldQuery rt query data)
            else if key = ''$el'' then
              (case data of Arr items \<Rightarrow> field_some rt query items | _ \<Rightarrow> Inl RuntimeTypeError)
            else if key \<in> set object_prototype_names then Inl Unmodelled
            else (case simple_operator rt key query data of
                    None \<Rightarrow> Inr True
                  | Some r \<Rightarrow> r))
      of Inl e \<Rightarrow> Inl e
       | Inr b \<Rightarrow> if b then field_keys rt rest data else Inr False)"
| "field_or rt [] data prev = Inr prev"
| "field_or rt (q # qs) data prev =
     (if prev then field_or rt qs data True
      else (case executeFieldQuery rt q data of
              Inl e \<Rightarrow> Inl e
            | Inr b \<Rightarrow> field_or rt qs data b))"
| "field_and rt [] data prev = Inr prev"
| "field_and rt (q # qs) data prev =
     (if prev then
        (case executeFieldQuery rt q data of
           Inl e \<Rightarrow> Inl e
         | Inr b \<Rightarrow> field_and rt qs data b)
      else field_and rt qs data False)"
| "field_some rt query [] = Inr False"
| "field_some rt query (item # items) =
     (case executeFieldQuery rt query item of
        Inl e \<Rightarrow> Inl e
      | Inr b \<Rightarrow> if b then Inr True else field_some rt query items)"
  by pat_completeness auto
termination
  by (relation "measures [\<lambda>a. case a of
         Inl (Inl (rt, query, data)) \<Rightarrow> 2 * nodes query
       | Inl (Inr (rt, kvs, data)) \<Rightarrow> 2 * sum_list (map (\<lambda>(k, v). Suc (nodes v)) kvs)
       | Inr (Inl (rt, qs, data, prev)) \<Rightarrow> 2 * sum_list (map (\<lambda>q. Suc (nodes q)) qs)
       | Inr (Inr (Inl (rt, qs, data, prev))) \<Rightarrow> 2 * sum_list (map (\<lambda>q. Suc (nodes q)) qs)
       | Inr (Inr (Inr (rt, query, items))) \<Rightarrow> 2 * nodes query + 1,
       \<lambda>a. case a of
         Inr (Inr (Inr (rt, query, items))) \<Rightarrow> length items
       | _ \<Rightarrow> 0]")
     auto

subsection \<open>\<^verbatim>\<open>executeQuery\<close>\<close>

text \<open>
  \<^verbatim>\<open>getCell\<close>: the walk along the segments of the key by \<^verbatim>\<open>r[k]\<close>; a step from \<^verbatim>\<open>null\<close> or
  \<^verbatim>\<open>undefined\<close> raises, a step to an inherited member leaves the model.
\<close>

fun getCell_walk :: "jsval \<Rightarrow> string list \<Rightarrow> error + jsval" where
  "getCell_walk r [] = Inr r"
| "getCell_walk r (k # ks) =
     (case member r k of Inl e \<Rightarrow> Inl e | Inr x \<Rightarrow> getCell_walk x ks)"

definition getCell :: "jsval \<Rightarrow> string \<Rightarrow> error + jsval" where
  "getCell row key = getCell_walk row (split_on CHR ''.'' key)"

text \<open>
  \<^verbatim>\<open>try { return executeFieldQuery(value, getCell(data, key)) } catch { return false }\<close>.
  Every exception is caught; a run that leaves the model stays one.
\<close>

definition try_field :: "runtime \<Rightarrow> jsval \<Rightarrow> string \<Rightarrow> jsval \<Rightarrow> error + bool" where
  "try_field rt data key query =
     (case (case getCell data key of
              Inl e \<Rightarrow> Inl e
            | Inr cell \<Rightarrow> executeFieldQuery rt query cell)
      of Inl Unmodelled \<Rightarrow> Inl Unmodelled
       | Inl e \<Rightarrow> Inr False
       | Inr b \<Rightarrow> Inr b)"

text \<open>\<^verbatim>\<open>Object.entries(query)\<close> raises on \<^verbatim>\<open>null\<close> and \<^verbatim>\<open>undefined\<close>.\<close>

definition object_entries :: "jsval \<Rightarrow> error + props" where
  "object_entries v = (if isNullable v then Inl RuntimeTypeError else Inr (entries v))"

text \<open>
  \<^verbatim>\<open>executeQuery\<close>, with \<^verbatim>\<open>entries.every\<close> as the loop \<open>query_every\<close> and the two \<^verbatim>\<open>reduce\<close>
  calls as \<open>query_and\<close> and \<open>query_or\<close>.
\<close>

function executeQuery :: "runtime \<Rightarrow> jsval \<Rightarrow> jsval \<Rightarrow> string \<Rightarrow> props \<Rightarrow> error + bool"
  and query_every :: "runtime \<Rightarrow> jsval \<Rightarrow> props \<Rightarrow> string \<Rightarrow> props \<Rightarrow> error + bool"
  and query_and :: "runtime \<Rightarrow> jsval \<Rightarrow> jsval list \<Rightarrow> string \<Rightarrow> props \<Rightarrow> bool \<Rightarrow> error + bool"
  and query_or :: "runtime \<Rightarrow> jsval \<Rightarrow> jsval list \<Rightarrow> string \<Rightarrow> props \<Rightarrow> bool \<Rightarrow> error + bool"
where
  "executeQuery rt data query ref env =
     (if isNullable query then Inl RuntimeTypeError
      else query_every rt data (entries query) ref env)"
| "query_every rt data [] ref env = Inr True"
| "query_every rt data ((key, v) # rest) ref env =
     (case (if key = ''$and'' then
              (case v of Arr qs \<Rightarrow> query_and rt data qs ref env True | _ \<Rightarrow> Inl RuntimeTypeError)
            else if key = ''$or'' then
              (case v of Arr qs \<Rightarrow> query_or rt data qs ref env False | _ \<Rightarrow> Inl RuntimeTypeError)
            else if key = ''$not'' then invert (executeQuery rt data v ref env)
            else if key = ''$expr'' then
              exec_eval rt (Obj (obj_set (obj_set env ref data) ''_'' data)) v
            else try_field rt data key v)
      of Inl e \<Rightarrow> Inl e
       | Inr b \<Rightarrow> if b then query_every rt data rest ref env else Inr False)"
| "query_and rt data [] ref env prev = Inr prev"
| "query_and rt data (q # qs) ref env prev =
     (if prev then
        (case executeQuery rt data q ref env of
           Inl e \<Rightarrow> Inl e
         | Inr b \<Rightarrow> query_and rt data qs ref env b)
      else query_and rt data qs ref env False)"
| "query_or rt data [] ref env prev = Inr prev"
| "query_or rt data (q # qs) ref env prev =
     (if prev then query_or rt data qs ref env True
      else (case executeQuery rt data q ref env of
              Inl e \<Rightarrow> Inl e
            | Inr b \<Rightarrow> query_or rt data qs ref env b))"
  by pat_completeness auto
termination
proof -
  let ?L = "\<lambda>kvs :: props. sum_list (map (\<lambda>(k, v). Suc (nodes v)) kvs)"
  let ?A = "\<lambda>qs :: jsval list. sum_list (map (\<lambda>q. Suc (nodes q)) qs)"
  have zip_le: "?L (zip ks xs) \<le> ?A xs" for ks :: "string list" and xs
  proof (induction xs arbitrary: ks)
    case Nil
    show ?case by simp
  next
    case (Cons x xs)
    show ?case using Cons.IH by (cases ks) (auto intro: le_SucI trans_le_add2)
  qed
  have ent: "?L (entries v) < nodes v" for v
  proof (cases v)
    case (Arr xs)
    then show ?thesis
      using zip_le [of "map string_of_nat [0 ..< length xs]" xs] by simp
  qed simp_all
  show ?thesis
    by (relation "measure (\<lambda>a. case a of
          Inl (Inl (rt, data, query, ref, env)) \<Rightarrow> nodes query
        | Inl (Inr (rt, data, kvs, ref, env)) \<Rightarrow> ?L kvs
        | Inr (Inl (rt, data, qs, ref, env, prev)) \<Rightarrow> ?A qs
        | Inr (Inr (rt, data, qs, ref, env, prev)) \<Rightarrow> ?A qs)")
      (auto simp: ent)
qed

subsection \<open>Paths that cannot be walked\<close>





text \<open>The rows of a data set that a query matches.\<close>

definition matching_rows :: "runtime \<Rightarrow> jsval list \<Rightarrow> jsval \<Rightarrow> string \<Rightarrow> props \<Rightarrow> jsval list" where
  "matching_rows rt rows query ref env =
     filter (\<lambda>row. executeQuery rt row query ref env = Inr True) rows"

text \<open>
  A runtime without a regular expression engine and without \<^verbatim>\<open>executeEval\<close>, in which no
  object of the query is an object of the data (as when the rows are read from a store),
  and one in which every object of the query that is equal to one of the data is that
  object.
\<close>

definition sample_runtime :: runtime where
  "sample_runtime =
     \<lparr> regex_test = (\<lambda>q d. Inl Unmodelled), regex_for = (\<lambda>d q. Inl Unmodelled),
       exec_eval = (\<lambda>env e. Inl Unmodelled), same_object = (\<lambda>a b. False) \<rparr>"


section \<open>The Mongo builder\<close>

subsection \<open>Field filters\<close>

text \<open>The object with one property.\<close>

definition obj1 :: "string \<Rightarrow> jsval \<Rightarrow> jsval" where
  "obj1 k v = Obj [(k, v)]"

text \<open>
  \<^verbatim>\<open>transformFieldQuery\<close> and \<^verbatim>\<open>createFieldFilter\<close>. The array \<^verbatim>\<open>filters\<close>, which the source
  extends in place, is passed along and returned. The results \<^verbatim>\<open>false\<close>, \<^verbatim>\<open>true\<close> and
  \<^verbatim>\<open>null\<close> are the values \<open>Bool False\<close>, \<open>Bool True\<close> and \<open>Null\<close>. \<open>tfq_props\<close> is the loop over
  the properties of an operator object, \<open>tfq_and\<close> the loop over the items of \<^verbatim>\<open>$and\<close> (its
  flag says whether no item was \<^verbatim>\<open>false\<close>), \<open>tfq_or\<close> the \<^verbatim>\<open>some\<close> over the items of \<^verbatim>\<open>$or\<close>
  (its flag is the result of \<^verbatim>\<open>some\<close>, its list the array \<^verbatim>\<open>$or\<close>).
\<close>

function (sequential) transformFieldQuery ::
    "builder \<Rightarrow> jsval \<Rightarrow> string \<Rightarrow> jsval list \<Rightarrow> ty option \<Rightarrow> error + (jsval \<times> jsval list)"
  and tfq_props ::
    "builder \<Rightarrow> props \<Rightarrow> string \<Rightarrow> ty option \<Rightarrow> props \<Rightarrow> jsval list \<Rightarrow> error + (jsval \<times> jsval list)"
  and tfq_and ::
    "builder \<Rightarrow> jsval list \<Rightarrow> string \<Rightarrow> ty option \<Rightarrow> jsval list \<Rightarrow> error + (bool \<times> jsval list)"
  and tfq_or ::
    "builder \<Rightarrow> jsval list \<Rightarrow> string \<Rightarrow> ty option \<Rightarrow> jsval list \<Rightarrow> error + (bool \<times> jsval list)"
  and createFieldFilter :: "builder \<Rightarrow> jsval \<Rightarrow> string \<Rightarrow> ty option \<Rightarrow> error + jsval"
where
  "transformFieldQuery b (Str s) key filters t =
     Inr (obj1 ''$eq'' (if map_option ty_type t = Some ''primary'' then ObjectIdV s else Str s),
          filters)"
| "transformFieldQuery b (Num n) key filters t = Inr (obj1 ''$eq'' (Num n), filters)"
| "transformFieldQuery b (Bool x) key filters t = Inr (obj1 ''$eq'' (Bool x), filters)"
| "transformFieldQuery b (DateV d) key filters t = Inr (obj1 ''$eq'' (DateV d), filters)"
| "transformFieldQuery b (ObjectIdV i) key filters t = Inr (obj1 ''$eq'' (ObjectIdV i), filters)"
| "transformFieldQuery b (Arr xs) key filters t =
     (if xs = [] then Inr (Bool False, filters) else Inr (obj1 ''$in'' (Arr xs), filters))"
| "transformFieldQuery b (RegExpV src fl) key filters t =
     Inr (obj1 ''$regex'' (RegExpV src fl), filters)"
| "transformFieldQuery b Undefined key filters t = Inr (Null, filters)"
| "transformFieldQuery b Null key filters t = Inr (Null, filters)"
| "transformFieldQuery b (Obj kvs) key filters t = tfq_props b kvs key t [] filters"
| "transformFieldQuery b (Expr et kvs) key filters t = tfq_props b kvs key t [] filters"
| "transformFieldQuery b (Code f) key filters t = Inl Unmodelled"
| "tfq_props b [] key t result filters =
     Inr (if result = [] then Bool True else Obj result, filters)"
| "tfq_props b ((prop, v) # rest) key t result filters =
     (if prop = ''$and'' then
        (case v of
           Arr items \<Rightarrow>
             (case tfq_and b items key t filters of
                Inl e \<Rightarrow> Inl e
              | Inr (ok, filters') \<Rightarrow>
                  if ok then tfq_props b rest key t result filters'
                  else Inr (Bool False, filters'))
         | Str s \<Rightarrow> Inl Unmodelled
         | _ \<Rightarrow> Inl RuntimeTypeError)
      else if prop = ''$or'' then
        (case v of
           Arr items \<Rightarrow>
             (if items = [] then Inr (Bool False, filters)
              else (case tfq_or b items key t [] of
                      Inl e \<Rightarrow> Inl e
                    | Inr (always, ors) \<Rightarrow>
                        tfq_props b rest key t result
                          (if always then filters else filters @ [obj1 ''$or'' (Arr ors)])))
         | Undefined \<Rightarrow> Inl RuntimeTypeError
         | Null \<Rightarrow> Inl RuntimeTypeError
         | Str s \<Rightarrow> (if s = [] then Inr (Bool False, filters) else Inl RuntimeTypeError)
         | _ \<Rightarrow> Inr (Bool False, filters))
      else if prop = ''$not'' then
        (case createFieldFilter b v key t of
           Inl e \<Rightarrow> Inl e
         | Inr child \<Rightarrow>
             if child = Bool True then Inr (Bool False, filters)
             else tfq_props b rest key t result
                    (if child \<noteq> Bool False then filters @ [obj1 ''$nor'' (Arr [child])]
                     else filters))
      else if prop = ''$el'' then
        (case transformFieldQuery b v key filters None of
           Inl e \<Rightarrow> Inl e
         | Inr (child, filters') \<Rightarrow>
             if child = Bool False then Inr (Bool False, filters')
             else tfq_props b rest key t
                    (if child \<noteq> Bool True then obj_set result ''$elemMatch'' child else result)
                    filters')
      else if prop = ''$regex'' then
        Inr (obj1 ''$regex'' (case v of Str s \<Rightarrow> Str s | _ \<Rightarrow> makeRegExp b v), filters)
      else if prop = ''$regexFor'' then
        (if isNullable v then Inl RuntimeTypeError
         else tfq_props b rest key t result
                (filters @
                 [obj1 ''$expr'' (obj1 ''$regexMatch''
                    (Obj ([(''input'', if isNullable (get_prop v ''input'') then v
                                       else get_prop v ''input''),
                           (''regex'', Str (''$'' @ key))]
                          @ (if truthy (get_prop v ''flags'')
                             then [(''options'', get_prop v ''flags'')] else []))))]))
      else if prop = ''$exists'' then
        (if truthy v then Inr (obj1 ''$ne'' Null, filters) else Inr (Null, filters))
      else tfq_props b rest key t (obj_set result prop v) filters)"
| "tfq_and b [] key t filters = Inr (True, filters)"
| "tfq_and b (item # items) key t filters =
     (case createFieldFilter b item key t of
        Inl e \<Rightarrow> Inl e
      | Inr child \<Rightarrow>
          if child = Bool False then Inr (False, filters)
          else tfq_and b items key t (if child \<noteq> Bool True then filters @ [child] else filters))"
| "tfq_or b [] key t ors = Inr (False, ors)"
| "tfq_or b (item # items) key t ors =
     (case createFieldFilter b item key t of
        Inl e \<Rightarrow> Inl e
      | Inr child \<Rightarrow>
          if child = Bool True then Inr (True, ors)
          else if child = Bool False then tfq_or b items key t ors
          else tfq_or b items key t (ors @ [child]))"
| "createFieldFilter b query key t =
     (case transformFieldQuery b query key [] t of
        Inl e \<Rightarrow> Inl e
      | Inr (child, filters) \<Rightarrow>
          if child = Bool False then Inr (Bool False)
          else
            (let r1 = (if child \<noteq> Bool True then [(key, child)] else []);
                 r2 = (if filters \<noteq> [] then obj_set r1 ''$and'' (Arr filters) else r1)
             in if r2 \<noteq> [] then Inr (Obj r2) else Inr (Bool True)))"
  by pat_completeness auto
termination
  apply (relation "measure (\<lambda>a. case a of
          Inl (Inl (b, query, key, filters, t)) \<Rightarrow> 2 * nodes query
        | Inl (Inr (b, kvs, key, t, result, filters)) \<Rightarrow>
            2 * sum_list (map (\<lambda>(k, v). Suc (nodes v)) kvs)
        | Inr (Inl (b, items, key, t, filters)) \<Rightarrow>
            2 * sum_list (map (\<lambda>q. Suc (nodes q)) items)
        | Inr (Inr (Inl (b, items, key, t, ors))) \<Rightarrow>
            2 * sum_list (map (\<lambda>q. Suc (nodes q)) items)
        | Inr (Inr (Inr (b, query, key, t))) \<Rightarrow> 2 * nodes query + 1)")
  apply auto
  done


subsection \<open>\<^verbatim>\<open>Builder.query\<close>\<close>

text \<open>\<^verbatim>\<open>getActualKey(key)\<close> without a reference: the virtual key is stored as \<^verbatim>\<open>_id\<close>.\<close>

definition getActualKey :: "builder \<Rightarrow> string \<Rightarrow> string" where
  "getActualKey b key = (if Some key = virtualKey b then ''_id'' else key)"

text \<open>
  The inner loop of \<^verbatim>\<open>query\<close> over the flattened field queries: \<open>None\<close> is the
  \<^verbatim>\<open>return\<close> without a filter.
\<close>

fun query_fields ::
    "builder \<Rightarrow> props \<Rightarrow> props \<Rightarrow> jsval list \<Rightarrow> error + (props \<times> jsval list) option" where
  "query_fields b [] flt additional = Inr (Some (flt, additional))"
| "query_fields b ((key, v) # rest) flt additional =
     (case transformFieldQuery b v (getActualKey b key) additional (fieldType b key) of
        Inl e \<Rightarrow> Inl e
      | Inr (q, additional') \<Rightarrow>
          if q = Bool False then Inr None
          else query_fields b rest
                 (if q \<noteq> Bool True then obj_set flt (getActualKey b key) q else flt)
                 additional')"

text \<open>\<^verbatim>\<open>(filter.$and ||= []).push(...additional)\<close>.\<close>

definition push_additional :: "props \<Rightarrow> jsval list \<Rightarrow> props" where
  "push_additional flt additional =
     (if additional = [] then flt
      else obj_set flt ''$and''
             (case obj_get flt ''$and'' of
                Arr xs \<Rightarrow> Arr (xs @ additional)
              | _ \<Rightarrow> Arr additional))"

text \<open>
  \<^verbatim>\<open>Builder.query\<close>: the filter, or \<open>None\<close> where the source returns \<^verbatim>\<open>undefined\<close>, which
  stands for a query that matches nothing. \<open>query_keys\<close> is the loop over the keys of the
  query, \<open>query_map\<close> the \<^verbatim>\<open>value.map(query => this.query(sel, query))\<close>, in which an
  \<^verbatim>\<open>undefined\<close> result is an element \<open>Undefined\<close>.
\<close>

function (sequential) Builder_query :: "builder \<Rightarrow> jsval \<Rightarrow> error + jsval option"
  and query_keys :: "builder \<Rightarrow> props \<Rightarrow> props \<Rightarrow> jsval list \<Rightarrow> error + jsval option"
  and query_map :: "builder \<Rightarrow> jsval list \<Rightarrow> error + jsval list"
where
  "Builder_query b query = query_keys b (entries query) [] []"
| "query_keys b [] flt additional = Inr (Some (Obj (push_additional flt additional)))"
| "query_keys b ((key, v) # rest) flt additional =
     (if key = ''$and'' \<or> key = ''$or'' then
        (case v of
           Arr qs \<Rightarrow>
             (if qs \<noteq> [] then
                (case query_map b qs of
                   Inl e \<Rightarrow> Inl e
                 | Inr fs \<Rightarrow> query_keys b rest (obj_set flt key (Arr fs)) additional)
              else if key = ''$or'' then Inr None
              else query_keys b rest flt additional)
         | Undefined \<Rightarrow> Inl RuntimeTypeError
         | Null \<Rightarrow> Inl RuntimeTypeError
         | Str s \<Rightarrow>
             (if s \<noteq> [] then Inl RuntimeTypeError
              else if key = ''$or'' then Inr None
              else query_keys b rest flt additional)
         | _ \<Rightarrow> (if key = ''$or'' then Inr None else query_keys b rest flt additional))
      else if key = ''$not'' then
        (case Builder_query b v of
           Inl e \<Rightarrow> Inl e
         | Inr None \<Rightarrow> query_keys b rest flt additional
         | Inr (Some q) \<Rightarrow> query_keys b rest (obj_set flt ''$nor'' (Arr [q])) additional)
      else if key = ''$expr'' then
        query_keys b rest flt (additional @ [obj1 ''$expr'' (b_eval b v)])
      else
        (case query_fields b
                (if isFlat b v \<or> (case v of ObjectIdV i \<Rightarrow> True | _ \<Rightarrow> False)
                 then [(key, v)] else flatten b v (key @ ''.''))
                flt additional of
           Inl e \<Rightarrow> Inl e
         | Inr None \<Rightarrow> Inr None
         | Inr (Some (flt', additional')) \<Rightarrow> query_keys b rest flt' additional'))"
| "query_map b [] = Inr []"
| "query_map b (q # qs) =
     (case Builder_query b q of
        Inl e \<Rightarrow> Inl e
      | Inr f \<Rightarrow>
          (case query_map b qs of
             Inl e \<Rightarrow> Inl e
           | Inr fs \<Rightarrow> Inr ((case f of None \<Rightarrow> Undefined | Some x \<Rightarrow> x) # fs)))"
  by pat_completeness auto
termination
proof -
  let ?L = "\<lambda>kvs :: props. sum_list (map (\<lambda>(k, v). Suc (nodes v)) kvs)"
  let ?A = "\<lambda>qs :: jsval list. sum_list (map (\<lambda>q. Suc (nodes q)) qs)"
  have zip_le: "?L (zip ks xs) \<le> ?A xs" for ks :: "string list" and xs
  proof (induction xs arbitrary: ks)
    case Nil
    show ?case by simp
  next
    case (Cons x xs)
    show ?case using Cons.IH by (cases ks) (auto intro: le_SucI trans_le_add2)
  qed
  have ent: "?L (entries v) < nodes v" for v
  proof (cases v)
    case (Arr xs)
    then show ?thesis
      using zip_le [of "map string_of_nat [0 ..< length xs]" xs] by simp
  qed simp_all
  show ?thesis
    by (relation "measure (\<lambda>a. case a of
          Inl (b, query) \<Rightarrow> nodes query
        | Inr (Inl (b, kvs, flt, additional)) \<Rightarrow> ?L kvs
        | Inr (Inr (b, qs)) \<Rightarrow> ?A qs)")
      (auto simp: ent)
qed

text \<open>
  The part of \<^verbatim>\<open>select\<close> that places the filter: without a filter \<^verbatim>\<open>select\<close> returns
  nothing (\<open>None\<close>), an empty filter adds no stage, any other one a \<^verbatim>\<open>$match\<close> stage after
  the pending lookups.
\<close>

definition where_stages :: "jsval list \<Rightarrow> jsval option \<Rightarrow> jsval list option" where
  "where_stages lookups flt =
     (case flt of
        None \<Rightarrow> None
      | Some f \<Rightarrow> if entries f = [] then Some [] else Some (lookups @ [obj1 ''$match'' f]))"

text \<open>
  Modelled from the spec: the rows that \<^verbatim>\<open>get\<close> of the Mongo driver returns for the stages of
  the filter (index.ts of the driver is not at hand). A selection for which \<^verbatim>\<open>select\<close>
  returns nothing yields no rows; otherwise the server runs the stages in turn over the
  rows of the table, and \<open>stage\<close> is what the server makes of one stage.
\<close>

definition run_stages ::
    "(jsval \<Rightarrow> jsval list \<Rightarrow> jsval list) \<Rightarrow> jsval list option \<Rightarrow> jsval list \<Rightarrow> jsval list" where
  "run_stages stage stages rows =
     (case stages of None \<Rightarrow> [] | Some ss \<Rightarrow> foldl (\<lambda>rs s. stage s rs) rows ss)"


subsection \<open>Types of terms\<close>

text \<open>\<^verbatim>\<open>Type.fromField\<close> of a type name, \<^verbatim>\<open>Type.Array\<close> and \<^verbatim>\<open>Type.Object\<close> of typed members.\<close>

definition fromFieldName :: "string \<Rightarrow> ty" where
  "fromFieldName n = Ty n NoInner False"

definition Type_Array :: "ty option \<Rightarrow> ty" where
  "Type_Array t = Ty ''json'' (case t of None \<Rightarrow> NoInner | Some e \<Rightarrow> InnerType e) True"


text \<open>\<^verbatim>\<open>Type.fromPrimitive\<close>; a typed array (\<^verbatim>\<open>ArrayBuffer.isView\<close>) is no value of the model.\<close>

fun fromPrimitive :: "jsval \<Rightarrow> ty" where
  "fromPrimitive Undefined = fromFieldName ''expr''"
| "fromPrimitive Null = fromFieldName ''expr''"
| "fromPrimitive (Num n) = fromFieldName ''double''"
| "fromPrimitive (Str s) = fromFieldName ''string''"
| "fromPrimitive (Bool b) = fromFieldName ''boolean''"
| "fromPrimitive (Code f) = fromFieldName ''string''"
| "fromPrimitive (DateV t) = fromFieldName ''timestamp''"
| "fromPrimitive (Arr []) = Type_Array None"
| "fromPrimitive (Arr (x # xs)) = Type_Array (Some (fromPrimitive x))"
| "fromPrimitive v = fromFieldName ''json''"

text \<open>\<^verbatim>\<open>Type.fromTerm(value)\<close>, as type.ts has it: a second argument is not read.\<close>

definition fromTerm :: "jsval \<Rightarrow> ty" where
  "fromTerm v =
     (case v of
        Expr (Some t) kvs \<Rightarrow> t
      | Expr None kvs \<Rightarrow> fromFieldName ''expr''
      | _ \<Rightarrow> fromPrimitive v)"







subsection \<open>\<^verbatim>\<open>Builder.toUpdateExpr\<close>\<close>







subsection \<open>The operator \<^verbatim>\<open>$and\<close> and \<^verbatim>\<open>transformEvalExpr\<close>\<close>

text \<open>
  The two functions that the builder hands to the server as text (\<^verbatim>\<open>toString()\<close> of the
  function): \<^verbatim>\<open>function (...args) { return args.reduce((prev, curr) => prev & curr) }\<close> and
  \<^verbatim>\<open>function (...args) { return args.reduce((prev, curr) => String(BigInt(prev ?? 0) & BigInt(curr ?? 0))) }\<close>.
\<close>

definition and_body_number :: jsfun where
  "and_body_number =
     RestFun ''args''
       (ReduceE (Var ''args'') ''prev'' ''curr'' (BitAndE (Var ''prev'') (Var ''curr'')))"

definition and_body_bigint :: jsfun where
  "and_body_bigint =
     RestFun ''args''
       (ReduceE (Var ''args'') ''prev'' ''curr''
          (CallString (BitAndE (CallBigInt (Coalesce (Var ''prev'') (NumLit 0)))
                               (CallBigInt (Coalesce (Var ''curr'') (NumLit 0))))))"

definition js_function :: "jsfun \<Rightarrow> jsval list \<Rightarrow> jsval" where
  "js_function body args =
     obj1 ''$function'' (Obj [(''body'', Code body), (''args'', Arr args), (''lang'', Str ''js'')])"

text \<open>
  \<^verbatim>\<open>evalOperators.$and\<close>, for the expression \<^verbatim>\<open>this.evalExpr\<close> that is being transformed and
  its argument. \<^verbatim>\<open>args.map\<close> raises when the argument is no array.
\<close>

definition evalOperators_and :: "builder \<Rightarrow> jsval \<Rightarrow> jsval \<Rightarrow> error + jsval" where
  "evalOperators_and b evalExpr arg =
     (case arg of
        Arr args \<Rightarrow>
          (if ty_type (fromTerm evalExpr) \<in> set boolean_types then
             Inr (obj1 ''$and'' (Arr (map (b_eval b) args)))
           else if 7 \<le> version b then
             Inr (obj1 ''$bitAnd'' (Arr (map (b_eval b) args)))
           else if ty_type (fromTerm evalExpr) \<in> set number_types then
             Inr (js_function and_body_number (map (b_eval b) args))
           else
             Inr (obj1 ''$toLong''
                    (js_function and_body_bigint
                       (map (\<lambda>a. obj1 ''$toString'' (b_eval b a)) args))))
      | _ \<Rightarrow> Inl RuntimeTypeError)"

text \<open>
  The table \<^verbatim>\<open>this.evalOperators\<close>: its entry \<^verbatim>\<open>$and\<close>, and its other entries as \<open>others\<close>
  gives them. An entry takes the expression and the argument under its key.
\<close>

definition evalOperators ::
    "builder \<Rightarrow> (string \<Rightarrow> (jsval \<Rightarrow> jsval \<Rightarrow> error + jsval) option)
       \<Rightarrow> string \<Rightarrow> (jsval \<Rightarrow> jsval \<Rightarrow> error + jsval) option" where
  "evalOperators b others key =
     (if key = ''$and'' then Some (evalOperators_and b) else others key)"




text \<open>
  \<^verbatim>\<open>this.eval\<close> on a term without arguments of its own: a comparable value, \<^verbatim>\<open>null\<close> or an
  object id is returned as it is; a reference \<^verbatim>\<open>$\<close> to a field by its name is the prefix
  and the actual key. Other terms are not its business and are returned unchanged.
\<close>

definition eval_leaf :: "string \<Rightarrow> string option \<Rightarrow> jsval \<Rightarrow> jsval" where
  "eval_leaf prefix vkey e =
     (if isComparable e \<or> isNullable e then e
      else (case e of
              Expr t [(k, Str field)] \<Rightarrow>
                (if k = ''$'' then Str (prefix @ (if Some field = vkey then ''_id'' else field))
                 else e)
            | _ \<Rightarrow> e))"

subsection \<open>The server's reading of the emitted operators\<close>


















text \<open>
  The rows that the driver returns for a query: the stages of its filter, run by the
  server.
\<close>

definition mongo_rows ::
    "builder \<Rightarrow> (jsval \<Rightarrow> jsval list \<Rightarrow> jsval list) \<Rightarrow> jsval list \<Rightarrow> jsval list \<Rightarrow> jsval
       \<Rightarrow> error + jsval list" where
  "mongo_rows b stage lookups rows query =
     (case Builder_query b query of
        Inl e \<Rightarrow> Inl e
      | Inr f \<Rightarrow> Inr (run_stages stage (where_stages lookups f) rows))"

subsection \<open>Sample terms\<close>

text \<open>A builder with the default prefix and no virtual key, for a server of the given version.\<close>

definition sample_builder :: "int \<Rightarrow> builder" where
  "sample_builder v =
     \<lparr> virtualKey = None, recursivePrefix = ''$'', version = v, fieldType = (\<lambda>k. None),
       isFlat = (\<lambda>v. True), flatten = (\<lambda>v p. []), makeRegExp = (\<lambda>v. v),
       dump = (\<lambda>v t. v), b_eval = eval_leaf ''$'' None \<rparr>"



section \<open>Property lists\<close>

lemma obj_set_Nil [simp]: "obj_set [] k v = [(k, v)]"
  by (simp add: obj_set_def split: option.splits)

lemma obj_set_same [simp]: "obj_set ((k, a) # kvs) k v = (k, v) # kvs"
  by (simp add: obj_set_def)

lemma obj_set_other:
  "k' \<noteq> k \<Longrightarrow> index_of_string k = None \<Longrightarrow> obj_set ((k', a) # kvs) k v = (k', a) # obj_set kvs k v"
  by (simp add: obj_set_def)

lemma index_of_string_name: "s \<noteq> [] \<Longrightarrow> \<not> is_digit (hd s) \<Longrightarrow> index_of_string s = None"
  by (cases s) (auto simp: index_of_string_def)

lemma map_of_map_set: "map_of (map_set kvs k v) = (map_of kvs)(k \<mapsto> v)"
  by (induction kvs) auto

lemma fst_map_set: "fst ` set (map_set kvs k v) = insert k (fst ` set kvs)"
proof (induction kvs)
  case Nil
  show ?case by simp
next
  case (Cons e kvs)
  obtain k' v' where e: "e = (k', v')" by (cases e)
  show ?case
  proof (cases "k' = k")
    case True
    then show ?thesis unfolding e by simp
  next
    case False
    then show ?thesis unfolding e using Cons.IH by (simp add: insert_commute)
  qed
qed

lemma set_insert_index: "set (insert_index kvs n k v) = insert (k, v) (set kvs)"
proof (induction kvs)
  case Nil
  show ?case by simp
next
  case (Cons e kvs)
  obtain k' v' where e: "e = (k', v')" by (cases e)
  show ?case
    unfolding e using Cons.IH by (simp add: insert_commute)
qed

lemma keys_insert_index: "fst ` set (insert_index kvs n k v) = insert k (fst ` set kvs)"
  by (simp add: set_insert_index)

lemma map_of_insert_index:
  "k \<notin> fst ` set kvs \<Longrightarrow> map_of (insert_index kvs n k v) = (map_of kvs)(k \<mapsto> v)"
proof (induction kvs)
  case Nil
  show ?case by simp
next
  case (Cons e kvs)
  obtain k' v' where e: "e = (k', v')" by (cases e)
  have ne: "k' \<noteq> k" and rest: "k \<notin> fst ` set kvs"
    using Cons.prems e by auto
  show ?case
    using Cons.IH [OF rest] ne unfolding e by (auto simp: fun_upd_twist)
qed

lemma map_of_obj_set: "map_of (obj_set kvs k v) = (map_of kvs)(k \<mapsto> v)"
proof (cases "k \<in> fst ` set kvs")
  case True
  then show ?thesis by (simp add: obj_set_def map_of_map_set)
next
  case False
  then have none: "map_of kvs k = None"
    by (simp add: map_of_eq_None_iff)
  have "map_of (kvs @ [(k, v)]) x = ((map_of kvs)(k \<mapsto> v)) x" for x
    using none by (cases "map_of kvs x") (auto simp: map_add_def)
  then have "map_of (kvs @ [(k, v)]) = (map_of kvs)(k \<mapsto> v)"
    by (rule ext)
  then show ?thesis
    using False by (simp add: obj_set_def map_of_insert_index split: option.splits)
qed

lemma fst_obj_set: "fst ` set (obj_set kvs k v) = insert k (fst ` set kvs)"
  by (auto simp: obj_set_def fst_map_set keys_insert_index split: option.splits)

lemma obj_set_fresh:
  "k \<notin> fst ` set kvs \<Longrightarrow> index_of_string k = None \<Longrightarrow> obj_set kvs k v = kvs @ [(k, v)]"
  by (simp add: obj_set_def)

lemma map_set_fresh: "k \<notin> fst ` set kvs \<Longrightarrow> map_set kvs k v = kvs @ [(k, v)]"
  by (induction kvs) auto







lemma distinct_map_set: "distinct (map fst kvs) \<Longrightarrow> distinct (map fst (map_set kvs k v))"
proof (induction kvs)
  case Nil
  show ?case by simp
next
  case (Cons e kvs)
  obtain k' v' where e: "e = (k', v')" by (cases e)
  show ?case
    using Cons unfolding e by (auto simp: fst_map_set)
qed

lemma distinct_insert_index:
  "distinct (map fst kvs) \<Longrightarrow> k \<notin> fst ` set kvs \<Longrightarrow> distinct (map fst (insert_index kvs n k v))"
proof (induction kvs)
  case Nil
  show ?case by simp
next
  case (Cons e kvs)
  obtain k' v' where e: "e = (k', v')" by (cases e)
  show ?case
    using Cons unfolding e by (auto simp: keys_insert_index)
qed

lemma distinct_obj_set: "distinct (map fst kvs) \<Longrightarrow> distinct (map fst (obj_set kvs k v))"
  by (auto simp: obj_set_def distinct_map_set distinct_insert_index split: option.splits)

lemma set_obj_set_fresh:
  "k \<notin> fst ` set kvs \<Longrightarrow> set (obj_set kvs k v) = insert (k, v) (set kvs)"
  by (simp add: obj_set_def set_insert_index split: option.splits)

text \<open>Stores of names that are no array indices, as simplification rules.\<close>

lemmas obj_set_name = obj_set_other index_of_string_name is_digit_def

section \<open>Time-of-day normalisation\<close>















section \<open>Field shorthands\<close>

lemma not_word_paren: "\<not> is_word_char CHR ''(''"
  by (simp add: is_word_char_def)

lemma regexp_exec_split:
  assumes "takeWhile is_word_char s = w" "dropWhile is_word_char s = r" "w \<noteq> []"
  shows "regexp_exec s =
     (if r = [] then Some (w, None)
      else if hd r = CHR ''('' \<and> last r = CHR '')'' \<and> 3 \<le> length r
              \<and> (\<forall>c \<in> set (butlast (tl r)). \<not> is_line_terminator c)
      then Some (w, Some (butlast (tl r)))
      else None)"
  using assms by (simp add: regexp_exec_def Let_def)

lemma regexp_exec_type:
  assumes "shorthand_type t"
  shows "regexp_exec t = Some (t, None)"
proof -
  have w: "takeWhile is_word_char t = t" and r: "dropWhile is_word_char t = []"
    using assms by (simp_all add: shorthand_type_def)
  have "t \<noteq> []" using assms by (simp add: shorthand_type_def)
  then show ?thesis
    using regexp_exec_split [OF w r] by simp
qed

lemma regexp_exec_type_arg:
  assumes "shorthand_type t" "shorthand_arg a"
  shows "regexp_exec (t @ ''('' @ a @ '')'') = Some (t, Some a)"
proof -
  have w: "takeWhile is_word_char (t @ ''('' @ a @ '')'') = t"
    using assms(1) not_word_paren by (simp add: shorthand_type_def)
  have r: "dropWhile is_word_char (t @ ''('' @ a @ '')'') = ''('' @ a @ '')''"
    using assms(1) not_word_paren by (simp add: shorthand_type_def)
  have a: "a \<noteq> []" "\<forall>c \<in> set a. \<not> is_line_terminator c"
    using assms(2) by (simp_all add: shorthand_arg_def)
  have t: "t \<noteq> []" using assms(1) by (simp add: shorthand_type_def)
  have "3 \<le> length (''('' @ a @ '')'')"
    using a(1) by (cases a) simp_all
  then show ?thesis
    using regexp_exec_split [OF w r t] a by (simp add: butlast_append)
qed

lemma regexp_exec_grammar:
  assumes "regexp_exec s = Some (t, c)"
  shows "shorthand_type t \<and> (case c of None \<Rightarrow> s = t
           | Some a \<Rightarrow> shorthand_arg a \<and> s = t @ ''('' @ a @ '')'')"
proof -
  let ?w = "takeWhile is_word_char s" and ?r = "dropWhile is_word_char s"
  have s: "s = ?w @ ?r" by simp
  have t: "t = ?w" "?w \<noteq> []"
    using assms by (auto simp: regexp_exec_def Let_def split: if_splits)
  have ty: "shorthand_type t"
    using t by (auto simp: shorthand_type_def dest: set_takeWhileD)
  show ?thesis
  proof (cases "?r = []")
    case True
    then have "c = None" using assms t by (auto simp: regexp_exec_def Let_def split: if_splits)
    moreover have "s = t" using True s t by (metis append_Nil2)
    ultimately show ?thesis using ty by simp
  next
    case False
    then have m: "hd ?r = CHR ''(''" "last ?r = CHR '')''" "3 \<le> length ?r"
        "\<forall>c \<in> set (butlast (tl ?r)). \<not> is_line_terminator c" "c = Some (butlast (tl ?r))"
      using assms t by (auto simp: regexp_exec_def Let_def split: if_splits)
    have tl: "tl ?r \<noteq> []" using m(3) by (cases ?r) auto
    have "?r = hd ?r # tl ?r" using False by simp
    moreover have "tl ?r = butlast (tl ?r) @ [last (tl ?r)]" using tl by simp
    moreover have "last (tl ?r) = last ?r" using tl False by (simp add: last_tl)
    ultimately have r: "?r = ''('' @ butlast (tl ?r) @ '')''"
      using m(1,2) by (metis append_Cons append_Nil)
    have "butlast (tl ?r) \<noteq> []"
      using m(3) by (cases ?r; cases "tl ?r"; cases "tl (tl ?r)") auto
    then have "shorthand_arg (butlast (tl ?r))"
      using m(4) by (simp add: shorthand_arg_def)
    moreover have "s = t @ ''('' @ butlast (tl ?r) @ '')''"
      using s r t(1) by metis
    ultimately show ?thesis using ty m(5) by simp
  qed
qed

lemma regexp_exec_None_iff: "regexp_exec s = None \<longleftrightarrow> \<not> shorthand_grammar s"
proof
  assume n: "regexp_exec s = None"
  show "\<not> shorthand_grammar s"
  proof
    assume "shorthand_grammar s"
    then obtain t where "shorthand_type t"
        and "s = t \<or> (\<exists>a. shorthand_arg a \<and> s = t @ ''('' @ a @ '')'')"
      by (auto simp: shorthand_grammar_def)
    then show False
      using n regexp_exec_type [of t] regexp_exec_type_arg [of t] by auto
  qed
next
  assume g: "\<not> shorthand_grammar s"
  show "regexp_exec s = None"
  proof (cases "regexp_exec s")
    case None
    then show ?thesis .
  next
    case (Some tc)
    obtain t c where "tc = (t, c)" by (cases tc)
    with Some have "shorthand_grammar s"
      using regexp_exec_grammar [of s t c]
      by (auto simp: shorthand_grammar_def split: option.splits)
    with g show ?thesis by simp
  qed
qed

lemma split_on_plain: "sep \<notin> set p \<Longrightarrow> split_on sep p = [p]"
  by (induction p) auto

lemma split_on_first: "sep \<notin> set p \<Longrightarrow> split_on sep (p @ sep # q) = p # split_on sep q"
  by (induction p) auto

lemma Field_parse_Shorthand:
  "Field_parse (Shorthand s) =
     (case regexp_exec s of
        None \<Rightarrow> Inl InvalidField
      | Some (t, c) \<Rightarrow>
          Inr (set_length t (split_on CHR '','' (case c of None \<Rightarrow> [] | Some a \<Rightarrow> a))
                 (default_initial (field0 t))))"
  by (simp add: Field_parse_def split: option.splits)

lemma default_initial_fields:
  "ftype (default_initial (field0 t)) = t"
  "flength (default_initial (field0 t)) = None"
  "precision (default_initial (field0 t)) = None"
  "scale (default_initial (field0 t)) = None"
  by (simp_all add: default_initial_def field0_def Let_def)

text \<open>
  C7, the counterexample. The claim has the one-argument form set the length. For
  \<^verbatim>\<open>decimal(10)\<close> the code sets the precision to 10 and no length (the scale is what unary
  plus makes of the missing second argument).
\<close>

theorem Field_parse_decimal_one_argument:
  "Field_parse (Shorthand ''decimal(10)'') =
     Inr \<lparr> ftype = ''decimal'', flength = None, nullable = None, initial = Some (Num 0),
           precision = Some (IntN 10), scale = Some NaN, expr = None, legacy = None,
           deprecated = None \<rparr>"
  by (simp add: Field_parse_Shorthand regexp_exec_def is_word_char_def is_line_terminator_def
      set_length_def default_initial_def field0_def number_types_def string_types_def
      nth_opt_def unary_plus_def is_digit_def dec_value_def Let_def)

text \<open>
  C7, amended. \<open>Field.parse\<close> accepts exactly the strings \<^verbatim>\<open>TYPE\<close> and \<^verbatim>\<open>TYPE(ARG)\<close>, where
  \<open>TYPE\<close> is a non-empty run of word characters and \<open>ARG\<close> a non-empty text on one line,
  and raises the invalid-field error for every other string. The type of the field is
  \<open>TYPE\<close>. The two-argument form \<^verbatim>\<open>decimal(p,s)\<close> sets precision and scale to the numbers
  \<^verbatim>\<open>+p\<close> and \<^verbatim>\<open>+s\<close>, and no form of the type \<open>decimal\<close> sets the length. For any other type
  the one-argument form \<^verbatim>\<open>TYPE(n)\<close> sets the length to the number \<^verbatim>\<open>+n\<close> and neither
  precision nor scale. The number \<^verbatim>\<open>+n\<close> of a decimal numeral \<open>n\<close> up to \<open>2\<^sup>5\<^sup>3\<close> is its
  value.
\<close>

theorem Field_parse_shorthand_grammar:
  "(\<not> shorthand_grammar s \<longrightarrow> Field_parse (Shorthand s) = Inl InvalidField)
   \<and> (shorthand_grammar s \<longrightarrow> (\<exists>f. Field_parse (Shorthand s) = Inr f))
   \<and> (shorthand_type t \<longrightarrow>
        (\<exists>f. Field_parse (Shorthand t) = Inr f \<and> ftype f = t \<and> flength f = None))
   \<and> (shorthand_arg (p @ '','' @ q) \<and> CHR '','' \<notin> set p \<and> CHR '','' \<notin> set q \<longrightarrow>
        (\<exists>f. Field_parse (Shorthand (''decimal'' @ ''('' @ (p @ '','' @ q) @ '')'')) = Inr f
           \<and> ftype f = ''decimal'' \<and> precision f = Some (unary_plus (Some p))
           \<and> scale f = Some (unary_plus (Some q)) \<and> flength f = None))
   \<and> (shorthand_arg a \<longrightarrow>
        (\<exists>f. Field_parse (Shorthand (''decimal'' @ ''('' @ a @ '')'')) = Inr f
           \<and> ftype f = ''decimal'' \<and> flength f = None))
   \<and> (shorthand_type t \<and> t \<noteq> ''decimal'' \<and> shorthand_arg a \<and> CHR '','' \<notin> set a \<longrightarrow>
        (\<exists>f. Field_parse (Shorthand (t @ ''('' @ a @ '')'')) = Inr f
           \<and> ftype f = t \<and> flength f = Some (unary_plus (Some a))
           \<and> precision f = None \<and> scale f = None))
   \<and> (small_numeral n \<longrightarrow> unary_plus (Some n) = IntN (int (dec_value n)))"
proof (intro conjI impI)
  assume "\<not> shorthand_grammar s"
  then have "regexp_exec s = None" by (simp add: regexp_exec_None_iff)
  then show "Field_parse (Shorthand s) = Inl InvalidField"
    by (simp add: Field_parse_Shorthand)
next
  assume "shorthand_grammar s"
  then have "regexp_exec s \<noteq> None" by (simp add: regexp_exec_None_iff)
  then show "\<exists>f. Field_parse (Shorthand s) = Inr f"
    by (auto simp: Field_parse_Shorthand split: option.splits)
next
  assume "shorthand_type t"
  then show "\<exists>f. Field_parse (Shorthand t) = Inr f \<and> ftype f = t \<and> flength f = None"
    by (simp add: Field_parse_Shorthand regexp_exec_type set_length_def nth_opt_def
        default_initial_fields)
next
  have dec: "shorthand_type ''decimal''"
    by (simp add: shorthand_type_def is_word_char_def)
  {
    assume h: "shorthand_arg (p @ '','' @ q) \<and> CHR '','' \<notin> set p \<and> CHR '','' \<notin> set q"
    then have sp: "split_on CHR '','' (p @ '','' @ q) = [p, q]"
      by (simp add: split_on_first split_on_plain)
    show "\<exists>f. Field_parse (Shorthand (''decimal'' @ ''('' @ (p @ '','' @ q) @ '')'')) = Inr f
           \<and> ftype f = ''decimal'' \<and> precision f = Some (unary_plus (Some p))
           \<and> scale f = Some (unary_plus (Some q)) \<and> flength f = None"
      using h regexp_exec_type_arg [OF dec, of "p @ '','' @ q"] sp
      by (simp add: Field_parse_Shorthand set_length_def nth_opt_def default_initial_fields)
  }
  {
    assume h: "shorthand_arg a"
    show "\<exists>f. Field_parse (Shorthand (''decimal'' @ ''('' @ a @ '')'')) = Inr f
           \<and> ftype f = ''decimal'' \<and> flength f = None"
      using h regexp_exec_type_arg [OF dec, of a]
      by (simp add: Field_parse_Shorthand set_length_def default_initial_fields)
  }
next
  assume h: "shorthand_type t \<and> t \<noteq> ''decimal'' \<and> shorthand_arg a \<and> CHR '','' \<notin> set a"
  then have sp: "split_on CHR '','' a = [a]" and a: "a \<noteq> []"
    by (simp_all add: split_on_plain shorthand_arg_def)
  show "\<exists>f. Field_parse (Shorthand (t @ ''('' @ a @ '')'')) = Inr f
           \<and> ftype f = t \<and> flength f = Some (unary_plus (Some a))
           \<and> precision f = None \<and> scale f = None"
    using h regexp_exec_type_arg [of t a] sp a
    by (simp add: Field_parse_Shorthand set_length_def nth_opt_def default_initial_fields)
next
  assume "small_numeral n"
  then show "unary_plus (Some n) = IntN (int (dec_value n))"
    by (simp add: small_numeral_def unary_plus_def)
qed

theorem Field_parse_shorthand_grammar_witness:
  "\<not> shorthand_grammar ''var char''
   \<and> Field_parse (Shorthand ''var char'') = Inl InvalidField
   \<and> shorthand_grammar ''string(255)''
   \<and> shorthand_type ''string''
   \<and> (\<exists>f. Field_parse (Shorthand ''string'') = Inr f \<and> ftype f = ''string'' \<and> flength f = None)
   \<and> shorthand_arg ''10,2'' \<and> CHR '','' \<notin> set ''10'' \<and> CHR '','' \<notin> set ''2''
   \<and> (\<exists>f. Field_parse (Shorthand ''decimal(10,2)'') = Inr f
         \<and> precision f = Some (IntN 10) \<and> scale f = Some (IntN 2) \<and> flength f = None)
   \<and> shorthand_arg ''10''
   \<and> (\<exists>f. Field_parse (Shorthand ''decimal(10)'') = Inr f \<and> flength f = None)
   \<and> ''string'' \<noteq> ''decimal'' \<and> shorthand_arg ''255'' \<and> CHR '','' \<notin> set ''255''
   \<and> (\<exists>f. Field_parse (Shorthand ''string(255)'') = Inr f
         \<and> flength f = Some (IntN 255) \<and> precision f = None \<and> scale f = None)
   \<and> small_numeral ''255'' \<and> unary_plus (Some ''255'') = IntN 255"
proof -
  have n: "\<not> shorthand_grammar ''var char''"
    by (simp add: regexp_exec_None_iff [symmetric] regexp_exec_def is_word_char_def Let_def)
  have g: "shorthand_grammar ''string(255)''"
    using regexp_exec_None_iff [of "''string(255)''"]
    by (simp add: regexp_exec_def is_word_char_def is_line_terminator_def Let_def)
  have t: "shorthand_type ''string''"
    by (simp add: shorthand_type_def is_word_char_def)
  have a: "shorthand_arg ''10,2''" "shorthand_arg ''10''" "shorthand_arg ''255''"
    by (simp_all add: shorthand_arg_def is_line_terminator_def)
  have u: "unary_plus (Some ''10'') = IntN 10" "unary_plus (Some ''2'') = IntN 2"
      "unary_plus (Some ''255'') = IntN 255"
    by (simp_all add: unary_plus_def is_digit_def dec_value_def)
  have m: "small_numeral ''255''"
    by (simp add: small_numeral_def is_digit_def dec_value_def)
  show ?thesis
    using Field_parse_shorthand_grammar [of "''var char''" "''string''" "''10''" "''2''" "''10''" "''255''"]
      Field_parse_shorthand_grammar [of "''string(255)''" "''string''" "''10''" "''2''" "''255''" "''255''"]
      n g t a u m
    by auto
qed
section \<open>Registration of fields\<close>







section \<open>Creation of records\<close>

text \<open>The copy that cosmokit documents has the value of the original.\<close>

lemma tree_clone_id: "tree_clone v = v"
proof (induction v)
  case (Arr xs)
  then show ?case by (simp add: map_idI)
next
  case (Obj kvs)
  have "map (\<lambda>(k, v). (k, tree_clone v)) kvs = kvs"
  proof (rule map_idI)
    fix kv assume m: "kv \<in> set kvs"
    obtain k v where kv: "kv = (k, v)" by (cases kv)
    have "tree_clone v = v" using Obj.IH [of kv v] m kv by simp
    then show "(case kv of (k, v) \<Rightarrow> (k, tree_clone v)) = kv"
      using kv by simp
  qed
  then show ?case by simp
qed simp_all

lemma seeds_Nil: "seeds cl keys [] = {}"
  by (simp add: seeds_def)

lemma seeds_skip:
  "\<not> (deprecated f \<noteq> Some True \<and> k \<notin> set keys \<and> initial f \<noteq> None \<and> \<not> isNullable (the (initial f)))
     \<Longrightarrow> seeds cl keys ((k, f) # fs) = seeds cl keys fs"
  unfolding seeds_def by auto

lemma seeds_keep:
  "deprecated f \<noteq> Some True \<Longrightarrow> k \<notin> set keys \<Longrightarrow> initial f \<noteq> None
     \<Longrightarrow> \<not> isNullable (the (initial f))
     \<Longrightarrow> seeds cl keys ((k, f) # fs) = insert (k, cl (the (initial f))) (seeds cl keys fs)"
  unfolding seeds_def by auto

lemma seed_seeds:
  assumes "distinct (map fst fs)" "fst ` set fs \<inter> fst ` set acc = {}"
    "''__proto__'' \<notin> fst ` set fs" "distinct (map fst acc)"
  shows "\<exists>r. seed cl keys fs acc = Inr r \<and> distinct (map fst r)
           \<and> set r = set acc \<union> seeds cl keys fs"
  using assms
proof (induction fs arbitrary: acc)
  case Nil
  then show ?case by (simp add: seeds_Nil)
next
  case (Cons kf fs)
  obtain k f where kf: "kf = (k, f)" by (cases kf)
  have fresh: "k \<notin> fst ` set acc" using Cons.prems(2) kf by auto
  have d: "distinct (map fst fs)" and nk: "k \<notin> fst ` set fs"
    using Cons.prems(1) kf by auto
  have disj: "fst ` set fs \<inter> fst ` set acc = {}"
    using Cons.prems(2) by auto
  have np: "''__proto__'' \<notin> fst ` set fs" and kp: "k \<noteq> ''__proto__''"
    using Cons.prems(3) kf by auto
  show ?case
  proof (cases "deprecated f \<noteq> Some True \<and> k \<notin> set keys \<and> initial f \<noteq> None
                  \<and> \<not> isNullable (the (initial f))")
    case False
    have "seed cl keys (kf # fs) acc = seed cl keys fs acc"
      using False unfolding kf by auto
    then show ?thesis
      using Cons.IH [OF d disj np Cons.prems(4)] seeds_skip [OF False, of cl fs]
      unfolding kf by simp
  next
    case True
    let ?acc = "obj_set acc k (cl (the (initial f)))"
    have s: "seed cl keys ((k, f) # fs) acc = seed cl keys fs ?acc"
      using True kp by (simp add: store_def)
    have disj': "fst ` set fs \<inter> fst ` set ?acc = {}"
      using disj nk by (simp add: fst_obj_set)
    have d': "distinct (map fst ?acc)"
      using Cons.prems(4) by (rule distinct_obj_set)
    have k: "seeds cl keys ((k, f) # fs) = insert (k, cl (the (initial f))) (seeds cl keys fs)"
      using True by (simp add: seeds_keep)
    show ?thesis
      unfolding kf s k using Cons.IH [OF d disj' np d']
      by (simp add: set_obj_set_fresh [OF fresh])
  qed
qed

text \<open>
  C2. \<open>create\<close> parses the overlay of the given data on a seed record. The seed holds one
  entry for every field of the model that is not deprecated, is no part of the primary key
  and has an initial value other than null and undefined, and no other entry; the entry is
  the clone of the initial value, that is, what the function \<^verbatim>\<open>clone\<close> of cosmokit returns
  for it, whatever that function is. The fields are those of a model as \<open>extend\<close> leaves
  it: own properties with distinct names, none of them \<^verbatim>\<open>__proto__\<close>.
\<close>

theorem create_seeds_and_overlays:
  assumes "distinct (map fst (mfields M))" "''__proto__'' \<notin> fst ` set (mfields M)"
  shows "\<exists>seeded.
     create cl z M d = parse z M (spread seeded d)
     \<and> distinct (map fst seeded)
     \<and> (\<forall>k v. (k, v) \<in> set seeded \<longleftrightarrow>
           (\<exists>f i. (k, f) \<in> set (mfields M) \<and> deprecated f \<noteq> Some True
               \<and> k \<notin> set (makeArray (primary M))
               \<and> initial f = Some i \<and> \<not> isNullable i \<and> v = cl i))"
proof -
  obtain r where r: "seed cl (makeArray (primary M)) (mfields M) [] = Inr r"
    and d: "distinct (map fst r)"
    and s: "set r = seeds cl (makeArray (primary M)) (mfields M)"
    using seed_seeds [OF assms(1) _ assms(2), of "[]" cl "makeArray (primary M)"] by auto
  have "create cl z M d = parse z M (spread r d)"
    by (simp add: create_def r)
  moreover have "(k, v) \<in> set r \<longleftrightarrow>
           (\<exists>f i. (k, f) \<in> set (mfields M) \<and> deprecated f \<noteq> Some True
               \<and> k \<notin> set (makeArray (primary M))
               \<and> initial f = Some i \<and> \<not> isNullable i \<and> v = cl i)" for k v
    unfolding s seeds_def by simp
  ultimately show ?thesis using d by blast
qed

theorem create_seeds_and_overlays_witness:
  "distinct (map fst (mfields user_model))
   \<and> ''__proto__'' \<notin> fst ` set (mfields user_model)
   \<and> create tree_clone utc user_model [(''name'', Str ''Ann'')]
        = parse utc user_model
            (spread [(''name'', tree_clone (Str [])), (''tags'', tree_clone (Arr []))]
               [(''name'', Str ''Ann'')])
   \<and> create tree_clone utc user_model [(''name'', Str ''Ann'')]
        = Inr (Obj [(''name'', Str ''Ann''), (''tags'', Arr [])])"
proof -
  have d: "distinct (map fst (mfields user_model))"
    by (simp add: user_model_def new_model_def)
  have n: "''__proto__'' \<notin> fst ` set (mfields user_model)"
    by (simp add: user_model_def new_model_def)
  have c: "create tree_clone utc user_model [(''name'', Str ''Ann'')]
        = parse utc user_model
            (spread [(''name'', tree_clone (Str [])), (''tags'', tree_clone (Arr []))]
               [(''name'', Str ''Ann'')])"
    by (simp add: create_def user_model_def new_model_def field0_def isNullable_def store_def
        obj_set_name)
  have p: "parse utc user_model
            (spread [(''name'', tree_clone (Str [])), (''tags'', tree_clone (Arr []))]
               [(''name'', Str ''Ann'')])
        = Inr (Obj [(''name'', Str ''Ann''), (''tags'', Arr [])])"
    by (simp add: parse_def spread_def resolveValue_def field_type_def user_model_def
        new_model_def field0_def isNullable_def set_prop_def obj_set_name)
  show ?thesis
    using create_seeds_and_overlays [OF d n, of tree_clone utc "[(''name'', Str ''Ann'')]"] d n c p
    by simp
qed
section \<open>The round trip of format and parse\<close>

subsection \<open>What format stores\<close>





subsection \<open>What parse rebuilds\<close>











lemma normalised_keys: "fst ` set (normalised z M flat) = fst ` set flat"
  by (force simp: normalised_def)

subsection \<open>Time values keep the shape of a record\<close>


lemma shape_of_idem: "shape_of (shape_of v) = shape_of v"
  by (simp add: shape_of_def isNullable_def)








subsection \<open>The round trip\<close>




section \<open>Queries in the portable evaluator\<close>












text \<open>
  C4. The query \<^verbatim>\<open>{$or: []}\<close> is false of every row and \<^verbatim>\<open>{$and: []}\<close> true of every row in the
  evaluator. The Mongo builder gives no filter for the first, so that no row is returned,
  and the empty filter for the second, for which no stage is added and every row is
  returned.
\<close>

theorem empty_or_matches_nothing_empty_and_everything:
  "executeQuery rt row (Obj [(''$or'', Arr [])]) ref env = Inr False
   \<and> executeQuery rt row (Obj [(''$and'', Arr [])]) ref env = Inr True
   \<and> matching_rows rt rows (Obj [(''$or'', Arr [])]) ref env = []
   \<and> matching_rows rt rows (Obj [(''$and'', Arr [])]) ref env = rows
   \<and> Builder_query b (Obj [(''$or'', Arr [])]) = Inr None
   \<and> Builder_query b (Obj [(''$and'', Arr [])]) = Inr (Some (Obj []))
   \<and> mongo_rows b stage lookups rows (Obj [(''$or'', Arr [])]) = Inr []
   \<and> mongo_rows b stage lookups rows (Obj [(''$and'', Arr [])]) = Inr rows"
  by (simp add: isNullable_def matching_rows_def mongo_rows_def push_additional_def
      where_stages_def run_stages_def)

theorem empty_or_and_witness:
  "matching_rows sample_runtime [Obj [(''id'', Num 1)], Obj [(''id'', Num 2)]] (Obj [(''$or'', Arr [])]) ''t'' [] = []
   \<and> matching_rows sample_runtime [Obj [(''id'', Num 1)], Obj [(''id'', Num 2)]] (Obj [(''$and'', Arr [])]) ''t'' []
       = [Obj [(''id'', Num 1)], Obj [(''id'', Num 2)]]
   \<and> mongo_rows (sample_builder 6) (\<lambda>s rs. rs) [] [Obj [(''id'', Num 1)], Obj [(''id'', Num 2)]] (Obj [(''$or'', Arr [])])
       = Inr []
   \<and> mongo_rows (sample_builder 6) (\<lambda>s rs. rs) [] [Obj [(''id'', Num 1)], Obj [(''id'', Num 2)]] (Obj [(''$and'', Arr [])])
       = Inr [Obj [(''id'', Num 1)], Obj [(''id'', Num 2)]]"
  using empty_or_matches_nothing_empty_and_everything
    [of sample_runtime "Obj []" "''t''" "[]" "[Obj [(''id'', Num 1)], Obj [(''id'', Num 2)]]"
       "sample_builder 6" "\<lambda>s rs. rs" "[]"]
  by simp


section \<open>The operator \<^verbatim>\<open>$and\<close> of the Mongo builder\<close>














lemma digit_char_val: "d < 10 \<Longrightarrow> (of_char (char_of (48 + d :: nat)) :: nat) - 48 = d"
  by simp

















section \<open>Empty objects in updates\<close>











end
